theory Spec2Isabelle
  imports Complex_Main
begin

section \<open>JavaScript values and strings\<close>

text \<open>
  A string is a list of code units. The model covers the code units 0..255 (Latin-1), the
  range of \<^typ>\<open>char\<close>; the whitespace and case tables below are the ECMAScript ones
  restricted to that range.

  A number cell is modelled by its integer value (\<open>JNum n\<close>): the text that \<open>String\<close>
  gives for a fractional double follows the IEEE-754 shortest-digits rule and is not
  modelled. The integers meant are the safe integers, of magnitude at most
  \<open>maxSafeInteger\<close>: a double holds each of them exactly and \<open>String\<close> writes it in full
  decimal digits. Beyond them the source differs from the functions below (a double
  rounds, and \<open>String\<close> writes the shortest digits that read back, in exponent form from
  1e21 on); statements about the value of a number are made for safe integers only.
  Numbers obtained from text by \<open>parseInt\<close> and \<open>parseFloat\<close> are exact integers and
  rationals, where the source rounds to the nearest double.
\<close>

datatype jsval = JUndef | JNull | JBool bool | JNum int | JStr string

text \<open>\<open>Number.MAX_SAFE_INTEGER\<close>, that is 2^53 - 1.\<close>

definition maxSafeInteger :: int where
  "maxSafeInteger = 9007199254740991"

definition isWhiteSpace :: "char \<Rightarrow> bool" where
  "isWhiteSpace c \<longleftrightarrow> c \<in> set [CHR 0x09, CHR 0x0A, CHR 0x0B, CHR 0x0C, CHR 0x0D, CHR 0x20, CHR 0xA0]"

definition trimStart :: "string \<Rightarrow> string" where
  "trimStart s = dropWhile isWhiteSpace s"

definition trim :: "string \<Rightarrow> string" where
  "trim s = rev (dropWhile isWhiteSpace (rev (dropWhile isWhiteSpace s)))"

definition lowerChar :: "char \<Rightarrow> char" where
  "lowerChar c =
     (let n = (of_char c :: nat)
      in if (65 \<le> n \<and> n \<le> 90) \<or> (192 \<le> n \<and> n \<le> 222 \<and> n \<noteq> 215)
         then char_of (n + 32) else c)"

definition toLowerCase :: "string \<Rightarrow> string" where
  "toLowerCase s = map lowerChar s"

definition isDigit :: "char \<Rightarrow> bool" where
  "isDigit c \<longleftrightarrow> (48 \<le> (of_char c :: nat) \<and> (of_char c :: nat) \<le> 57)"

definition digitVal :: "char \<Rightarrow> nat" where
  "digitVal c = (of_char c :: nat) - 48"

definition digitChar :: "nat \<Rightarrow> char" where
  "digitChar d = char_of (48 + d)"

fun natToString :: "nat \<Rightarrow> string" where
  "natToString n = (if n < 10 then [digitChar n] else natToString (n div 10) @ [digitChar (n mod 10)])"

declare natToString.simps [simp del]

definition intToString :: "int \<Rightarrow> string" where
  "intToString n = (if n < 0 then CHR ''-'' # natToString (nat (- n)) else natToString (nat n))"

text \<open>\<open>String(value)\<close>.\<close>

fun String :: "jsval \<Rightarrow> string" where
  "String JUndef = ''undefined''"
| "String JNull = ''null''"
| "String (JBool b) = (if b then ''true'' else ''false'')"
| "String (JNum n) = intToString n"
| "String (JStr s) = s"

text \<open>Truthiness, as used by \<open>!x\<close>, \<open>x || y\<close> and \<open>filter(h => h)\<close>.\<close>

fun truthy :: "jsval \<Rightarrow> bool" where
  "truthy JUndef = False"
| "truthy JNull = False"
| "truthy (JBool b) = b"
| "truthy (JNum n) = (n \<noteq> 0)"
| "truthy (JStr s) = (s \<noteq> [])"

text \<open>\<open>a || b\<close>.\<close>

definition jsOr :: "jsval \<Rightarrow> jsval \<Rightarrow> jsval" where
  "jsOr a b = (if truthy a then a else b)"

text \<open>\<open>xs.join(sep)\<close> on an array of strings.\<close>

fun join :: "string \<Rightarrow> string list \<Rightarrow> string" where
  "join sep [] = []"
| "join sep [x] = x"
| "join sep (x # y # ys) = x @ sep @ join sep (y # ys)"

text \<open>\<open>row[index]\<close> on an array: a read outside the array gives \<open>undefined\<close>.\<close>

definition elemAt :: "jsval list \<Rightarrow> int \<Rightarrow> jsval" where
  "elemAt row i = (if 0 \<le> i \<and> i < int (length row) then row ! nat i else JUndef)"

section \<open>The parser's configuration\<close>

datatype fieldType = TString | TNumber

record columnConfig =
  possibleNames :: "string list"
  ftype :: fieldType

definition columnMapping :: "(string \<times> columnConfig) list" where
  "columnMapping =
    [(''BookingNumber'', \<lparr>possibleNames = [''Reservation Number'', ''Reservation Num''], ftype = TString\<rparr>),
     (''OTANumber'', \<lparr>possibleNames = [''Voucher''], ftype = TString\<rparr>),
     (''Name'', \<lparr>possibleNames = [''Main Guest''], ftype = TString\<rparr>),
     (''NumberOfAdults'', \<lparr>possibleNames = [''AD'', ''Adults''], ftype = TNumber\<rparr>),
     (''NumberOfChildren'', \<lparr>possibleNames = [''CH'', ''Children''], ftype = TNumber\<rparr>),
     (''DateFrom'', \<lparr>possibleNames = [''Arrival'', ''Arrival Date''], ftype = TString\<rparr>),
     (''DateTo'', \<lparr>possibleNames = [''Departure'', ''Departure Date''], ftype = TString\<rparr>)]"

definition requiredColumn :: string where
  "requiredColumn = ''BookingNumber''"

section \<open>Column resolution\<close>

text \<open>\<open>String(headerRow[i] || '').trim().toLowerCase()\<close>.\<close>

definition headerValue :: "jsval \<Rightarrow> string" where
  "headerValue x = toLowerCase (trim (String (jsOr x (JStr ''''))))"

text \<open>The \<open>for\<close> loop of \<open>findColumnIndex\<close>, from position \<open>i\<close> on.\<close>

fun findColumnIndexFrom :: "jsval list \<Rightarrow> string \<Rightarrow> int \<Rightarrow> int" where
  "findColumnIndexFrom [] nm i = - 1"
| "findColumnIndexFrom (x # xs) nm i =
     (if headerValue x = nm then i else findColumnIndexFrom xs nm (i + 1))"

definition findColumnIndex :: "jsval list \<Rightarrow> string \<Rightarrow> int" where
  "findColumnIndex headerRow columnName =
     findColumnIndexFrom headerRow (toLowerCase (trim columnName)) 0"

text \<open>The inner loop of \<open>findColumnIndices\<close>: the first alias with a match, then \<open>break\<close>.\<close>

fun firstFound :: "jsval list \<Rightarrow> string list \<Rightarrow> int" where
  "firstFound headerRow [] = - 1"
| "firstFound headerRow (p # ps) =
     (let index = findColumnIndex headerRow p
      in if index \<noteq> - 1 then index else firstFound headerRow ps)"

text \<open>
  The table of resolved indices, keyed by field name. Only the keys of \<open>columnMapping\<close>
  are ever written or read; the value at any other key is not used.
\<close>

type_synonym columnIndices = "string \<Rightarrow> int"

definition findColumnIndices :: "jsval list \<Rightarrow> columnIndices" where
  "findColumnIndices headerRow =
     foldl (\<lambda>indices (csvFieldName, config).
              indices(csvFieldName := firstFound headerRow (possibleNames config)))
           (\<lambda>_. - 1) columnMapping"

text \<open>A header cell matches an alias: equal after trimming and lower-casing.\<close>

definition headerMatches :: "jsval \<Rightarrow> string \<Rightarrow> bool" where
  "headerMatches x alias \<longleftrightarrow> headerValue x = toLowerCase (trim alias)"

section \<open>Numbers read from text\<close>

text \<open>The value of a run of decimal digits.\<close>

definition digitsVal :: "string \<Rightarrow> nat" where
  "digitsVal ds = foldl (\<lambda>a c. 10 * a + digitVal c) 0 ds"

text \<open>
  \<open>parseInt(s, 10)\<close>: leading whitespace is skipped, then an optional sign, then the longest
  run of decimal digits; no digit there gives \<open>NaN\<close> (\<open>None\<close>). The result here is the
  integer that the digits write; the source returns the double nearest to it, which is
  the same number when its magnitude is at most \<open>maxSafeInteger\<close>.
\<close>

definition parseInt :: "string \<Rightarrow> int option" where
  "parseInt str =
     (let s = trimStart str;
          neg = (s \<noteq> [] \<and> hd s = CHR ''-'');
          r = (if s \<noteq> [] \<and> (hd s = CHR ''-'' \<or> hd s = CHR ''+'') then tl s else s);
          ds = takeWhile isDigit r
      in if ds = [] then None
         else Some ((if neg then - 1 else 1) * int (digitsVal ds)))"

text \<open>A number that is not an integer cell: \<open>NaN\<close>, an infinity, or a finite value.\<close>

datatype jsfloat = FNaN | FInf bool | FNum rat

definition pow10 :: "int \<Rightarrow> rat" where
  "pow10 e = (if 0 \<le> e then 10 ^ nat e else 1 / 10 ^ nat (- e))"

definition startsWith :: "string \<Rightarrow> string \<Rightarrow> bool" where
  "startsWith s p \<longleftrightarrow> take (length p) s = p"

text \<open>\<open>r\<close> without a leading sign character.\<close>

definition dropSign :: "string \<Rightarrow> string" where
  "dropSign r = (if r \<noteq> [] \<and> (hd r = CHR ''-'' \<or> hd r = CHR ''+'') then tl r else r)"

text \<open>
  The exponent part after the mantissa: \<open>e\<close> or \<open>E\<close>, an optional sign and at least one
  digit; anything else is not part of the number.
\<close>

definition hasExponent :: "string \<Rightarrow> bool" where
  "hasExponent r \<longleftrightarrow>
     r \<noteq> [] \<and> (hd r = CHR ''e'' \<or> hd r = CHR ''E'') \<and> takeWhile isDigit (dropSign (tl r)) \<noteq> []"

definition exponentVal :: "string \<Rightarrow> int" where
  "exponentVal r =
     (if hasExponent r then
        (if hd (tl r) = CHR ''-'' then - 1 else 1) * int (digitsVal (takeWhile isDigit (dropSign (tl r))))
      else 0)"

text \<open>
  An unsigned decimal literal at the start of \<open>r\<close>: digits, an optional point with more
  digits, an optional exponent. \<open>strict\<close> asks that nothing follows the literal.
\<close>

definition decimalLiteral :: "bool \<Rightarrow> string \<Rightarrow> rat option" where
  "decimalLiteral strict r =
     (let ip = takeWhile isDigit r;
          r1 = dropWhile isDigit r;
          point = (r1 \<noteq> [] \<and> hd r1 = CHR ''.'' \<and> (ip \<noteq> [] \<or> takeWhile isDigit (tl r1) \<noteq> []));
          fp = (if point then takeWhile isDigit (tl r1) else []);
          r2 = (if point then dropWhile isDigit (tl r1) else r1);
          rest = (if hasExponent r2 then dropWhile isDigit (dropSign (tl r2)) else r2)
      in if ip = [] \<and> fp = [] then None
         else if strict \<and> rest \<noteq> [] then None
         else Some (of_nat (digitsVal (ip @ fp)) * pow10 (exponentVal r2 - int (length fp))))"

text \<open>\<open>parseFloat(s)\<close>: the longest prefix of the left-trimmed text that is a decimal literal.\<close>

definition parseFloat :: "string \<Rightarrow> jsfloat" where
  "parseFloat str =
     (let s = trimStart str;
          neg = (s \<noteq> [] \<and> hd s = CHR ''-'');
          r = dropSign s
      in if startsWith r ''Infinity'' then FInf neg
         else (case decimalLiteral False r of
                 None \<Rightarrow> FNaN
               | Some q \<Rightarrow> FNum (if neg then - q else q)))"

definition isHexDigit :: "char \<Rightarrow> bool" where
  "isHexDigit c \<longleftrightarrow> isDigit c \<or> c \<in> set ''abcdefABCDEF''"

definition hexDigitVal :: "char \<Rightarrow> nat" where
  "hexDigitVal c =
     (if isDigit c then digitVal c
      else if c \<in> set ''abcdef'' then (of_char c :: nat) - 87
      else (of_char c :: nat) - 55)"

definition radixLiteral :: "nat \<Rightarrow> (char \<Rightarrow> bool) \<Rightarrow> string \<Rightarrow> jsfloat" where
  "radixLiteral b ok ds =
     (if ds \<noteq> [] \<and> list_all ok ds
      then FNum (of_nat (foldl (\<lambda>a c. b * a + hexDigitVal c) 0 ds)) else FNaN)"

text \<open>
  \<open>ToNumber\<close> on a string: the whole trimmed text must be a numeric literal; the empty
  text is 0.
\<close>

definition stringToNumber :: "string \<Rightarrow> jsfloat" where
  "stringToNumber str =
     (let s = trim str in
      if s = [] then FNum 0
      else if startsWith s ''0x'' \<or> startsWith s ''0X'' then radixLiteral 16 isHexDigit (drop 2 s)
      else if startsWith s ''0o'' \<or> startsWith s ''0O'' then radixLiteral 8 (\<lambda>c. c \<in> set ''01234567'') (drop 2 s)
      else if startsWith s ''0b'' \<or> startsWith s ''0B'' then radixLiteral 2 (\<lambda>c. c \<in> set ''01'') (drop 2 s)
      else
        (let neg = (hd s = CHR ''-'');
             r = dropSign s
         in if r = ''Infinity'' then FInf neg
            else (case decimalLiteral True r of
                    None \<Rightarrow> FNaN
                  | Some q \<Rightarrow> FNum (if neg then - q else q))))"

text \<open>\<open>ToNumber(value)\<close>, as applied by the arithmetic operators.\<close>

fun toNumber :: "jsval \<Rightarrow> jsfloat" where
  "toNumber JUndef = FNaN"
| "toNumber JNull = FNum 0"
| "toNumber (JBool b) = FNum (if b then 1 else 0)"
| "toNumber (JNum n) = FNum (of_int n)"
| "toNumber (JStr s) = stringToNumber s"

text \<open>\<open>!isNaN(numValue) && numValue > 1 && numValue < 1000000\<close>.\<close>

fun inSerialRange :: "jsfloat \<Rightarrow> bool" where
  "inSerialRange (FNum q) \<longleftrightarrow> 1 < q \<and> q < 1000000"
| "inSerialRange FNaN \<longleftrightarrow> False"
| "inSerialRange (FInf neg) \<longleftrightarrow> False"

text \<open>\<open>typeof v === 'number' && v > 1 && v < 1000000\<close>.\<close>

fun numberInSerialRange :: "jsval \<Rightarrow> bool" where
  "numberInSerialRange (JNum n) \<longleftrightarrow> 1 < n \<and> n < 1000000"
| "numberInSerialRange JUndef \<longleftrightarrow> False"
| "numberInSerialRange JNull \<longleftrightarrow> False"
| "numberInSerialRange (JBool b) \<longleftrightarrow> False"
| "numberInSerialRange (JStr s) \<longleftrightarrow> False"

section \<open>Dates\<close>

text \<open>
  A \<open>Date\<close> is its time value in milliseconds, or \<open>None\<close> for an invalid date. The host's
  local time is taken to have a constant offset from UTC, so that local calendar fields
  are those of the proleptic Gregorian calendar applied to the time value counted from
  local midnight of 1 January 1970. On a host whose zone has changed its offset between
  the epoch and the date, the source can give the day before or after. The arithmetic is
  exact where the source computes in doubles.
\<close>

type_synonym jsdate = "int option"

definition msPerDay :: int where
  "msPerDay = 24 * 60 * 60 * 1000"

text \<open>Day number (days since 1 January 1970) of a calendar date; \<open>m\<close> counts from 1.\<close>

definition daysFromCivil :: "int \<Rightarrow> int \<Rightarrow> int \<Rightarrow> int" where
  "daysFromCivil y m d =
     (let y' = (if m \<le> 2 then y - 1 else y);
          era = y' div 400;
          yoe = y' - era * 400;
          mp = (m + 9) mod 12;
          doy = (153 * mp + 2) div 5 + d - 1;
          doe = yoe * 365 + yoe div 4 - yoe div 100 + doy
      in era * 146097 + doe - 719468)"

text \<open>Calendar date (year, month from 1, day of month) of a day number.\<close>

definition civilFromDays :: "int \<Rightarrow> int \<times> int \<times> int" where
  "civilFromDays z0 =
     (let z = z0 + 719468;
          era = z div 146097;
          doe = z - era * 146097;
          yoe = (doe - doe div 1460 + doe div 36524 - doe div 146096) div 365;
          y = yoe + era * 400;
          doy = doe - (365 * yoe + yoe div 4 - yoe div 100);
          mp = (5 * doy + 2) div 153;
          d = doy - (153 * mp + 2) div 5 + 1;
          m = (if mp < 10 then mp + 3 else mp - 9)
      in (if m \<le> 2 then y + 1 else y, m, d))"

text \<open>\<open>new Date(year, monthIndex, day)\<close>, for a month index 0..11 and a day of that month.\<close>

definition newDate :: "int \<Rightarrow> int \<Rightarrow> int \<Rightarrow> jsdate" where
  "newDate year monthIndex day = Some (daysFromCivil year (monthIndex + 1) day * msPerDay)"

text \<open>
  \<open>new Date(t)\<close> for a number \<open>t\<close>: \<open>NaN\<close>, an infinity or a value beyond 8.64e15 ms gives
  an invalid date; a fraction of a millisecond is dropped (towards zero).
\<close>

fun dateOfNumber :: "jsfloat \<Rightarrow> jsdate" where
  "dateOfNumber (FNum q) =
     (if \<bar>q\<bar> > 8640000000000000 then None
      else Some (if 0 \<le> q then \<lfloor>q\<rfloor> else - \<lfloor>- q\<rfloor>))"
| "dateOfNumber FNaN = None"
| "dateOfNumber (FInf neg) = None"

text \<open>\<open>a + x\<close> and \<open>x * b\<close> for finite \<open>a\<close> and \<open>b\<close>; the source uses no other case.\<close>

fun fadd :: "rat \<Rightarrow> jsfloat \<Rightarrow> jsfloat" where
  "fadd a (FNum q) = FNum (a + q)"
| "fadd a FNaN = FNaN"
| "fadd a (FInf neg) = FInf neg"

fun fmul :: "jsfloat \<Rightarrow> rat \<Rightarrow> jsfloat" where
  "fmul (FNum q) b = FNum (q * b)"
| "fmul FNaN b = FNaN"
| "fmul (FInf neg) b = (if b = 0 then FNaN else FInf (neg \<noteq> (b < 0)))"

definition excelDateToJSDate :: "jsfloat \<Rightarrow> jsdate" where
  "excelDateToJSDate excelDate =
     (case newDate 1899 11 30 of
        None \<Rightarrow> None
      | Some excelEpoch \<Rightarrow>
          dateOfNumber (fadd (of_int excelEpoch) (fmul (fmul (fmul (fmul excelDate 24) 60) 60) 1000)))"

definition padStart2 :: "string \<Rightarrow> string" where
  "padStart2 s = replicate (2 - length s) CHR ''0'' @ s"

definition formatDate :: "jsdate \<Rightarrow> string" where
  "formatDate date =
     (case date of
        None \<Rightarrow> ''''
      | Some t \<Rightarrow>
          (case civilFromDays (t div msPerDay) of
             (year, month, day) \<Rightarrow>
               padStart2 (intToString day) @ ''.'' @ padStart2 (intToString month) @ ''.'' @ intToString year))"

section \<open>The worksheet and the parser object\<close>

text \<open>
  A worksheet cell of the spreadsheet library: \<open>w\<close> is the formatted text (absent:
  \<open>None\<close>), \<open>v\<close> the underlying value, \<open>t\<close> the type tag.
\<close>

record cell =
  w :: "string option"
  v :: jsval
  t :: string

text \<open>
  A row of the grid that \<open>XLSX.utils.sheet_to_json(worksheet, {header: 1, defval: '', raw: true})\<close>
  returns: an array of raw cell values, or something that is not an array.
\<close>

datatype gridRow = Arr "jsval list" | NotArr

text \<open>
  A worksheet: its cells by address (\<open>A1\<close>, \<open>B7\<close>, ...) and the grid that the library's
  \<open>sheet_to_json\<close> makes of it. Reading the file and building the grid is library code;
  both are inputs here.
\<close>

record worksheet =
  cells :: "string \<Rightarrow> cell option"
  sheetRows :: "gridRow list"

record workbook =
  SheetNames :: "string list"
  Sheets :: "string \<Rightarrow> worksheet option"

text \<open>
  What the \<open>FileReader\<close> and \<open>XLSX.read\<close> make of a file: the reader fails
  (\<open>onerror\<close>), the library throws while reading the bytes, or a workbook is obtained.
\<close>

datatype fileData = ReaderError | ReadThrows string | Workbook workbook

record inputFile =
  name :: string
  fileData :: fileData

text \<open>
  The mutable state of an \<open>ExcelParser\<close> object: the field \<open>this.worksheet\<close>, which the
  constructor leaves undefined (\<open>None\<close>). \<open>columnMapping\<close> and \<open>requiredColumn\<close> are
  never assigned after construction and are constants above.
\<close>

record parser =
  this_worksheet :: "worksheet option"

definition constructor :: parser where
  "constructor = \<lparr>this_worksheet = None\<rparr>"

text \<open>An object with string keys; a key that is absent reads as \<open>undefined\<close>.\<close>

type_synonym jsobject = "string \<Rightarrow> jsval"

datatype error = Error string

record parseResult =
  rows :: "jsobject list"
  fileName :: string

section \<open>Cell extraction\<close>

text \<open>The \<open>while\<close> loop of \<open>numberToColumnLetter\<close>.\<close>

function numberToColumnLetterLoop :: "int \<Rightarrow> string \<Rightarrow> string" where
  "numberToColumnLetterLoop num result =
     (if num \<ge> 0
      then numberToColumnLetterLoop (num div 26 - 1) (char_of (65 + num mod 26) # result)
      else result)"
  by pat_completeness auto
termination
  by (relation "measure (\<lambda>(num, result). nat (num + 1))") auto

declare numberToColumnLetterLoop.simps [simp del]

definition numberToColumnLetter :: "int \<Rightarrow> string" where
  "numberToColumnLetter num = numberToColumnLetterLoop num ''''"

text \<open>\<open>colLetter + (rowIndex + 1)\<close>.\<close>

definition cellAddress :: "int \<Rightarrow> int \<Rightarrow> string" where
  "cellAddress columnIndex rowIndex = numberToColumnLetter columnIndex @ intToString (rowIndex + 1)"

text \<open>\<open>if (cell.w)\<close>: the formatted text is present and not empty.\<close>

definition hasW :: "cell \<Rightarrow> bool" where
  "hasW c \<longleftrightarrow> (case w c of None \<Rightarrow> False | Some s \<Rightarrow> s \<noteq> [])"

definition isNumber :: "jsval \<Rightarrow> bool" where
  "isNumber x \<longleftrightarrow> (case x of JNum n \<Rightarrow> True | _ \<Rightarrow> False)"

definition isDateField :: "string \<Rightarrow> bool" where
  "isDateField columnName \<longleftrightarrow> columnName = ''DateFrom'' \<or> columnName = ''DateTo''"

text \<open>
  \<open>getCellValue(row, index, rowIndex = -1, columnName = '')\<close>, for \<open>row\<close> an array (an
  array is never falsy, so \<open>!row\<close> is false).
\<close>

definition getCellValue :: "parser \<Rightarrow> jsval list \<Rightarrow> int \<Rightarrow> int \<Rightarrow> string \<Rightarrow> string" where
  "getCellValue this row index rowIndex columnName =
     (if index = - 1 \<or> elemAt row index = JUndef \<or> elemAt row index = JNull then ''''
      else
        (let value = elemAt row index;
             stringValue = trim (String value)
         in if isDateField columnName \<and> rowIndex > 0 \<and> this_worksheet this \<noteq> None then
              (case cells (the (this_worksheet this)) (cellAddress index rowIndex) of
                 Some cell \<Rightarrow>
                   if hasW cell then the (w cell)
                   else
                     (let numValue = parseFloat stringValue
                      in if inSerialRange numValue \<and>
                            (t cell = ''d'' \<or> (truthy (v cell) \<and> isNumber (v cell)))
                         then
                           (let excelDate = (if truthy (v cell) then toNumber (v cell) else numValue)
                            in formatDate (excelDateToJSDate excelDate))
                         else stringValue)
               | None \<Rightarrow>
                   (let numValue = parseFloat stringValue
                    in if inSerialRange numValue
                       then formatDate (excelDateToJSDate numValue)
                       else stringValue))
            else stringValue))"

section \<open>Row transformation\<close>

text \<open>\<open>/^\d{2}\.\d{2}\.\d{4}$/.test(s)\<close>.\<close>

definition matchesDDMMYYYY :: "string \<Rightarrow> bool" where
  "matchesDDMMYYYY s \<longleftrightarrow>
     (case s of
        [d1, d2, p1, m1, m2, p2, y1, y2, y3, y4] \<Rightarrow>
          isDigit d1 \<and> isDigit d2 \<and> p1 = CHR ''.'' \<and> isDigit m1 \<and> isDigit m2 \<and> p2 = CHR ''.'' \<and>
          isDigit y1 \<and> isDigit y2 \<and> isDigit y3 \<and> isDigit y4
      | _ \<Rightarrow> False)"

text \<open>
  The first block of the date branch of \<open>transformRow\<close>: the value taken from the
  worksheet cell, \<open>''\<close> when the block assigns nothing.
\<close>

definition worksheetDateValue :: "parser \<Rightarrow> int \<Rightarrow> int \<Rightarrow> string" where
  "worksheetDateValue this columnIndex rowIndex =
     (if rowIndex > 0 \<and> this_worksheet this \<noteq> None \<and> columnIndex \<noteq> - 1 then
        (case cells (the (this_worksheet this)) (cellAddress columnIndex rowIndex) of
           None \<Rightarrow> ''''
         | Some cell \<Rightarrow>
             if hasW cell then
               (let wValue = trim (the (w cell))
                in if matchesDDMMYYYY wValue then wValue
                   else if v cell \<noteq> JUndef \<and> v cell \<noteq> JNull \<and> numberInSerialRange (v cell)
                   then formatDate (excelDateToJSDate (toNumber (v cell)))
                   else wValue)
             else if v cell \<noteq> JUndef \<and> v cell \<noteq> JNull then
               (if numberInSerialRange (v cell)
                then formatDate (excelDateToJSDate (toNumber (v cell)))
                else String (v cell))
             else '''')
      else '''')"

text \<open>\<open>typeof rawValue === 'number' ? rawValue : parseFloat(rawValue)\<close>.\<close>

definition rawNumValue :: "jsval \<Rightarrow> jsfloat" where
  "rawNumValue rawValue = (if isNumber rawValue then toNumber rawValue else parseFloat (String rawValue))"

text \<open>The whole date branch: the worksheet block, then the fallback on the raw value.\<close>

definition dateValue :: "parser \<Rightarrow> jsval list \<Rightarrow> int \<Rightarrow> int \<Rightarrow> string" where
  "dateValue this row columnIndex rowIndex =
     (let rawValue = elemAt row columnIndex;
          dateValue0 = worksheetDateValue this columnIndex rowIndex
      in if dateValue0 = [] \<and> rawValue \<noteq> JUndef \<and> rawValue \<noteq> JNull \<and> rawValue \<noteq> JStr '''' then
           (let numValue = rawNumValue rawValue
            in if inSerialRange numValue
               then formatDate (excelDateToJSDate numValue)
               else trim (String rawValue))
         else dateValue0)"

text \<open>The object literal that \<open>transformRow\<close> starts from.\<close>

definition emptyRecord :: jsobject where
  "emptyRecord =
     (\<lambda>k. JUndef)
       (''Id'' := JStr '''', ''BookingNumber'' := JStr '''', ''OTANumber'' := JStr '''',
        ''Name'' := JStr '''', ''NumberOfAdults'' := JStr '''', ''NumberOfTeens'' := JNum 0,
        ''NumberOfChildren'' := JStr '''', ''NumberOfBabys'' := JNum 0,
        ''DateFrom'' := JStr '''', ''DateTo'' := JStr '''')"

text \<open>\<open>cellValue.startsWith('0') ? cellValue.substring(1) : cellValue\<close>.\<close>

definition stripLeadingZero :: "string \<Rightarrow> string" where
  "stripLeadingZero cellValue = (if startsWith cellValue ''0'' then drop 1 cellValue else cellValue)"

text \<open>
  The value that one round of the \<open>for\<close> loop over the entries of \<open>columnMapping\<close>
  assigns to \<open>transformed[csvFieldName]\<close>, for a column index other than -1: the date
  branch, or the standard branch with the treatment of \<open>BookingNumber\<close> and of the
  numeric fields.
\<close>

definition fieldResult :: "parser \<Rightarrow> jsval list \<Rightarrow> int \<Rightarrow> int \<Rightarrow> string \<Rightarrow> columnConfig \<Rightarrow> jsval" where
  "fieldResult this row rowIndex columnIndex csvFieldName config =
     (if isDateField csvFieldName
      then JStr (dateValue this row columnIndex rowIndex)
      else
        (let cellValue0 = getCellValue this row columnIndex rowIndex csvFieldName;
             cellValue = (if csvFieldName = ''BookingNumber''
                          then stripLeadingZero cellValue0 else cellValue0)
         in if ftype config = TNumber
            then (case parseInt cellValue of None \<Rightarrow> JStr '''' | Some numValue \<Rightarrow> JNum numValue)
            else JStr cellValue))"

text \<open>One round of that loop: a column index of -1 leaves the record as it is.\<close>

definition transformField ::
  "parser \<Rightarrow> jsval list \<Rightarrow> columnIndices \<Rightarrow> int \<Rightarrow> jsobject \<Rightarrow> string \<times> columnConfig \<Rightarrow> jsobject" where
  "transformField this row columnIndices rowIndex transformed entry =
     (case entry of (csvFieldName, config) \<Rightarrow>
        (let columnIndex = columnIndices csvFieldName
         in if columnIndex = - 1 then transformed
            else transformed(csvFieldName :=
                   fieldResult this row rowIndex columnIndex csvFieldName config)))"

definition transformRow :: "parser \<Rightarrow> jsval list \<Rightarrow> columnIndices \<Rightarrow> int \<Rightarrow> int \<Rightarrow> jsobject" where
  "transformRow this row columnIndices rowId rowIndex =
     (let transformed = foldl (transformField this row columnIndices rowIndex) emptyRecord columnMapping
      in transformed(''Id'' := jsOr (transformed ''BookingNumber'') (JStr '''')))"

section \<open>Parsing a file\<close>

text \<open>\<open>this.columnMapping[this.requiredColumn].possibleNames\<close>.\<close>

definition requiredNames :: "string list" where
  "requiredNames = (case map_of columnMapping requiredColumn of
                      None \<Rightarrow> [] | Some config \<Rightarrow> possibleNames config)"

text \<open>
  The messages of the errors that \<open>parseFile\<close> raises. The letters \<open>a\<close> and \<open>u\<close> with
  diaeresis are the code units 0xE4 and 0xFC, the double quote is 0x22.
\<close>

definition fileReadError :: error where
  "fileReadError = Error ''Fehler beim Lesen der Datei. Bitte versuchen Sie es erneut.''"

definition emptyWorkbookNoSheets :: error where
  "emptyWorkbookNoSheets = Error (''Die Excel-Datei enth'' @ [CHR 0xE4] @ ''lt keine Tabellen.'')"

definition emptyWorkbookNoRows :: error where
  "emptyWorkbookNoRows = Error ''Die Excel-Datei ist leer.''"

definition missingHeaderError :: error where
  "missingHeaderError =
     Error (''Die Excel-Datei enth'' @ [CHR 0xE4] @ ''lt keine g'' @ [CHR 0xFC] @ ''ltige Kopfzeile.'')"

text \<open>\<open>headerRow.filter(h => h).join(', ')\<close>.\<close>

definition availableColumns :: "jsval list \<Rightarrow> string" where
  "availableColumns headerRow = join '', '' (map String (filter truthy headerRow))"

text \<open>\<open>possibleNames.join('" oder "')\<close>.\<close>

definition joinedNames :: "string list \<Rightarrow> string" where
  "joinedNames names = join ([CHR 0x22] @ '' oder '' @ [CHR 0x22]) names"

definition missingRequiredColumnError :: "string list \<Rightarrow> jsval list \<Rightarrow> error" where
  "missingRequiredColumnError names headerRow =
     Error (''Die erforderliche Spalte '' @ [CHR 0x22] @ joinedNames names @ [CHR 0x22] @
            '' wurde nicht gefunden. '' @
            ''Verf'' @ [CHR 0xFC] @ ''gbare Spalten: '' @ availableColumns headerRow)"

definition noValidRowsError :: "string list \<Rightarrow> error" where
  "noValidRowsError names =
     Error (''Keine g'' @ [CHR 0xFC] @ ''ltigen Zeilen gefunden. Stellen Sie sicher, dass die Spalte '' @
            [CHR 0x22] @ joinedNames names @ [CHR 0x22] @ '' Werte enth'' @ [CHR 0xE4] @ ''lt.'')"

text \<open>
  The test that keeps a data row: \<open>!(!bookingNumber || bookingNumber.trim() === '')\<close> for
  the required cell's text.
\<close>

definition keepsRow :: "parser \<Rightarrow> columnIndices \<Rightarrow> jsval list \<Rightarrow> bool" where
  "keepsRow this columnIndices row =
     (let bookingNumberIndex = columnIndices requiredColumn;
          bookingNumber = getCellValue this row bookingNumberIndex (- 1) ''''
      in \<not> (bookingNumber = [] \<or> trim bookingNumber = []))"

text \<open>
  The loop over the data rows, from grid position \<open>i\<close> on, with the running counter
  \<open>rowNumber\<close>; the result is \<open>processedRows\<close> in the order of the pushes.
\<close>

fun processRows :: "parser \<Rightarrow> columnIndices \<Rightarrow> gridRow list \<Rightarrow> int \<Rightarrow> int \<Rightarrow> jsobject list" where
  "processRows this columnIndices [] i rowNumber = []"
| "processRows this columnIndices (NotArr # rest) i rowNumber =
     processRows this columnIndices rest (i + 1) rowNumber"
| "processRows this columnIndices (Arr row # rest) i rowNumber =
     (if \<not> keepsRow this columnIndices row
      then processRows this columnIndices rest (i + 1) rowNumber
      else transformRow this row columnIndices rowNumber i
             # processRows this columnIndices rest (i + 1) (rowNumber + 1))"

text \<open>
  The body of \<open>reader.onload\<close> from the grid on, with the parser object as it is after
  the assignment to \<open>this.worksheet\<close>: the value the promise settles with (\<open>Inl\<close>:
  rejected).
\<close>

definition parseGrid :: "parser \<Rightarrow> string \<Rightarrow> gridRow list \<Rightarrow> error + parseResult" where
  "parseGrid this fname jsonData =
     (case jsonData of
        [] \<Rightarrow> Inl emptyWorkbookNoRows
      | NotArr # dataRows \<Rightarrow> Inl missingHeaderError
      | Arr headerRow # dataRows \<Rightarrow>
          if headerRow = [] then Inl missingHeaderError
          else
            (let columnIndices = findColumnIndices headerRow
             in if columnIndices requiredColumn = - 1
                then Inl (missingRequiredColumnError requiredNames headerRow)
                else
                  (let processedRows = processRows this columnIndices dataRows 1 1
                   in if processedRows = []
                      then Inl (noValidRowsError requiredNames)
                      else Inr \<lparr>rows = processedRows, fileName = fname\<rparr>)))"

text \<open>
  The body of \<open>reader.onload\<close> once the workbook is read, from the first sheet's name on.
  It returns the settled promise and the parser object after the call.
\<close>

definition parseWorkbook :: "parser \<Rightarrow> string \<Rightarrow> workbook \<Rightarrow> (error + parseResult) \<times> parser" where
  "parseWorkbook this fname workbook =
     (case SheetNames workbook of
        [] \<Rightarrow> (Inl emptyWorkbookNoSheets, this)
      | firstSheetName # others \<Rightarrow>
          if firstSheetName = [] then (Inl emptyWorkbookNoSheets, this)
          else
            (let worksheet = Sheets workbook firstSheetName;
                 this' = this\<lparr>this_worksheet := worksheet\<rparr>;
                 jsonData = (case worksheet of None \<Rightarrow> [] | Some ws \<Rightarrow> sheetRows ws)
             in (parseGrid this' fname jsonData, this')))"

definition parseFile :: "parser \<Rightarrow> inputFile \<Rightarrow> (error + parseResult) \<times> parser" where
  "parseFile this f =
     (case fileData f of
        ReaderError \<Rightarrow> (Inl fileReadError, this)
      | ReadThrows msg \<Rightarrow> (Inl (Error msg), this)
      | Workbook workbook \<Rightarrow> parseWorkbook this (name f) workbook)"

section \<open>The CSV exporter\<close>

definition csvColumns :: "string list" where
  "csvColumns = [''Id'', ''BookingNumber'', ''OTANumber'', ''Name'', ''NumberOfAdults'',
                 ''NumberOfTeens'', ''NumberOfChildren'', ''NumberOfBabys'', ''DateFrom'', ''DateTo'']"

definition delimiter :: string where
  "delimiter = '';''"

text \<open>\<open>s.includes(sub)\<close>: \<open>sub\<close> occurs in \<open>s\<close> as a contiguous piece.\<close>

fun includesStr :: "string \<Rightarrow> string \<Rightarrow> bool" where
  "includesStr [] sub \<longleftrightarrow> sub = []"
| "includesStr (c # cs) sub \<longleftrightarrow> startsWith (c # cs) sub \<or> includesStr cs sub"

text \<open>\<open>s.replace(/"/g, '""')\<close>.\<close>

definition doubleQuotes :: "string \<Rightarrow> string" where
  "doubleQuotes s = concat (map (\<lambda>c. if c = CHR 0x22 then [CHR 0x22, CHR 0x22] else [c]) s)"

definition escapeCSVValue :: "jsval \<Rightarrow> string" where
  "escapeCSVValue value =
     (let stringValue = String value in
      if includesStr stringValue delimiter \<or> includesStr stringValue [CHR 0x22] \<or>
         includesStr stringValue [CHR 0x0A] \<or> includesStr stringValue [CHR 0x0D]
      then [CHR 0x22] @ doubleQuotes stringValue @ [CHR 0x22]
      else stringValue)"

text \<open>\<open>row[column] !== undefined && row[column] !== null ? row[column] : ''\<close>.\<close>

definition fieldValue :: "jsobject \<Rightarrow> string \<Rightarrow> jsval" where
  "fieldValue row column =
     (if row column \<noteq> JUndef \<and> row column \<noteq> JNull then row column else JStr '''')"

text \<open>One data line: the escaped field values in column order, joined by the delimiter.\<close>

definition dataRow :: "jsobject \<Rightarrow> string" where
  "dataRow row = join delimiter (map (\<lambda>column. escapeCSVValue (fieldValue row column)) csvColumns)"

definition header :: string where
  "header = join delimiter (map (\<lambda>col. escapeCSVValue (JStr col)) csvColumns)"

definition emptyExportError :: error where
  "emptyExportError = Error (''Keine Daten zum Exportieren verf'' @ [CHR 0xFC] @ ''gbar.'')"

definition createCSV :: "jsobject list \<Rightarrow> error + string" where
  "createCSV rs =
     (if rs = [] then Inl emptyExportError
      else Inr (join [CHR 0x0D, CHR 0x0A] (header # map dataRow rs)))"

section \<open>Reading a line back\<close>

text \<open>
  Splitting a line on the delimiter while respecting quoting: outside quotes a semicolon
  ends the field and a double quote at the start of a field opens a quoted part; inside
  quotes two double quotes stand for one and a single one closes the quoted part. The
  first argument tells whether the reader is inside quotes, the second holds the field
  read so far, in reverse.
\<close>

fun splitFields :: "bool \<Rightarrow> string \<Rightarrow> string \<Rightarrow> string list" where
  "splitFields q cur [] = [rev cur]"
| "splitFields False cur (c # cs) =
     (if c = CHR '';'' then rev cur # splitFields False [] cs
      else if c = CHR 0x22 \<and> cur = [] then splitFields True [] cs
      else splitFields False (c # cur) cs)"
| "splitFields True cur [c] =
     (if c = CHR 0x22 then splitFields False cur [] else splitFields True (c # cur) [])"
| "splitFields True cur (c # d # cs) =
     (if c = CHR 0x22 then
        (if d = CHR 0x22 then splitFields True (CHR 0x22 # cur) cs
         else splitFields False cur (d # cs))
      else splitFields True (c # cur) (d # cs))"

definition splitLine :: "string \<Rightarrow> string list" where
  "splitLine line = splitFields False [] line"

section \<open>Reading a document back\<close>

text \<open>
  Reading a whole text while respecting quoting: as \<open>splitFields\<close> within a line, and
  outside quotes a carriage return followed by a line feed ends the line. The third
  argument holds the fields of the current line read so far, in reverse. The result is
  the lines, each the list of its fields.
\<close>

fun readRecords :: "bool \<Rightarrow> string \<Rightarrow> string list \<Rightarrow> string \<Rightarrow> string list list" where
  "readRecords q cur fs [] = [rev (rev cur # fs)]"
| "readRecords False cur fs [c] =
     (if c = CHR '';'' then readRecords False [] (rev cur # fs) []
      else if c = CHR 0x22 \<and> cur = [] then readRecords True [] fs []
      else readRecords False (c # cur) fs [])"
| "readRecords False cur fs (c # d # cs) =
     (if c = CHR '';'' then readRecords False [] (rev cur # fs) (d # cs)
      else if c = CHR 0x0D \<and> d = CHR 0x0A then rev (rev cur # fs) # readRecords False [] [] cs
      else if c = CHR 0x22 \<and> cur = [] then readRecords True [] fs (d # cs)
      else readRecords False (c # cur) fs (d # cs))"
| "readRecords True cur fs [c] =
     (if c = CHR 0x22 then readRecords False cur fs [] else readRecords True (c # cur) fs [])"
| "readRecords True cur fs (c # d # cs) =
     (if c = CHR 0x22 then
        (if d = CHR 0x22 then readRecords True (CHR 0x22 # cur) fs cs
         else readRecords False cur fs (d # cs))
      else readRecords True (c # cur) fs (d # cs))"

definition readCSV :: "string \<Rightarrow> string list list" where
  "readCSV text = readRecords False [] [] text"

text \<open>
  A record with the name \<open>Doe; J\<close> (a semicolon) and, as voucher, the text \<open>say "hi"\<close>
  (double quotes), two adults and no value for the children.
\<close>

definition sampleRecord :: jsobject where
  "sampleRecord =
     emptyRecord
       (''Id'' := JStr ''12345'', ''BookingNumber'' := JStr ''12345'',
        ''OTANumber'' := JStr (''say '' @ [CHR 0x22] @ ''hi'' @ [CHR 0x22]),
        ''Name'' := JStr ''Doe; J'', ''NumberOfAdults'' := JNum 2,
        ''NumberOfChildren'' := JNull,
        ''DateFrom'' := JStr ''15.03.2023'', ''DateTo'' := JStr ''20.03.2023'')"

section \<open>Small inputs\<close>

text \<open>A parser whose worksheet holds the single cell \<open>c\<close> at address \<open>addr\<close>.\<close>

definition oneCellParser :: "string \<Rightarrow> cell \<Rightarrow> parser" where
  "oneCellParser addr c =
     \<lparr>this_worksheet = Some \<lparr>cells = (\<lambda>a. if a = addr then Some c else None), sheetRows = []\<rparr>\<rparr>"

text \<open>A table of indices in which only \<open>field\<close> is resolved, to column \<open>i\<close>.\<close>

definition onlyColumn :: "string \<Rightarrow> int \<Rightarrow> columnIndices" where
  "onlyColumn field i = (\<lambda>k. if k = field then i else - 1)"

text \<open>A file whose workbook has the single sheet \<open>S\<close> with no cells by address and the given grid.\<close>

definition gridFile :: "gridRow list \<Rightarrow> inputFile" where
  "gridFile grid =
     \<lparr>name = ''export.xlsx'',
      fileData = Workbook \<lparr>SheetNames = [''S''],
                           Sheets = (\<lambda>n. if n = ''S''
                                          then Some \<lparr>cells = (\<lambda>a. None), sheetRows = grid\<rparr>
                                          else None)\<rparr>\<rparr>"

text \<open>The parser after it has parsed \<open>gridFile grid\<close>.\<close>

definition gridParser :: "gridRow list \<Rightarrow> parser" where
  "gridParser grid = \<lparr>this_worksheet = Some \<lparr>cells = (\<lambda>a. None), sheetRows = grid\<rparr>\<rparr>"

section \<open>The date rules in words\<close>

text \<open>The serial conversion: the date of a serial, formatted.\<close>

definition serialText :: "jsfloat \<Rightarrow> string" where
  "serialText x = formatDate (excelDateToJSDate x)"

text \<open>
  The worksheet cell that the date branch of \<open>transformRow\<close> looks at: none unless the row
  index is positive, a worksheet is set and the column is resolved.
\<close>

definition lookupCell :: "parser \<Rightarrow> int \<Rightarrow> int \<Rightarrow> cell option" where
  "lookupCell this columnIndex rowIndex =
     (if rowIndex > 0 \<and> this_worksheet this \<noteq> None \<and> columnIndex \<noteq> - 1
      then cells (the (this_worksheet this)) (cellAddress columnIndex rowIndex)
      else None)"

text \<open>\<open>rawValue !== undefined && rawValue !== null && rawValue !== ''\<close>.\<close>

definition rawPresent :: "jsval \<Rightarrow> bool" where
  "rawPresent rawValue \<longleftrightarrow> rawValue \<noteq> JUndef \<and> rawValue \<noteq> JNull \<and> rawValue \<noteq> JStr ''''"

text \<open>
  The six resolution steps as the specification words them, for a cell with an optional
  display text \<open>display\<close> and an underlying value \<open>underlying\<close>, and the raw value \<open>raw\<close> of
  the row: (1) a display text of the form DD.MM.YYYY, verbatim; (2) else an underlying
  number in the serial range, converted; (3) else any display text, verbatim; (4) else
  raw text that parses to a number in the range, converted; (5) else the trimmed raw
  text; (6) with no value at all, the empty text.
\<close>

definition sixStepDate :: "string option \<Rightarrow> jsval \<Rightarrow> jsval \<Rightarrow> string" where
  "sixStepDate display underlying raw =
     (if display \<noteq> None \<and> matchesDDMMYYYY (the display) then the display
      else if numberInSerialRange underlying then serialText (toNumber underlying)
      else if display \<noteq> None then the display
      else if rawPresent raw \<and> inSerialRange (parseFloat (String raw)) then serialText (parseFloat (String raw))
      else if rawPresent raw then trim (String raw)
      else '''')"

text \<open>
  The steps as the code takes them, for the cell \<open>co\<close> found in the worksheet (if any)
  and the raw value \<open>raw\<close> of the row, first success winning:
  (1) a non-empty display text whose trimmed form is DD.MM.YYYY: the trimmed text;
  (2) else, with a non-empty display text or an underlying value, an underlying number
      in the serial range: converted;
  (3) else a non-empty display text that is not blank: the trimmed text;
  (3a) else, with no display text, an underlying value: its text, as it is, when that text
      is not empty;
  (4) else a raw value that is present and is a number in the range, or text that parses
      to one: converted;
  (5) else a raw value that is present: its trimmed text;
  (6) else the empty text.
\<close>

definition dateSteps :: "cell option \<Rightarrow> jsval \<Rightarrow> string" where
  "dateSteps co raw =
     (if co \<noteq> None \<and> hasW (the co) \<and> matchesDDMMYYYY (trim (the (w (the co))))
        then trim (the (w (the co)))
      else if co \<noteq> None \<and> numberInSerialRange (v (the co))
        then serialText (toNumber (v (the co)))
      else if co \<noteq> None \<and> hasW (the co) \<and> trim (the (w (the co))) \<noteq> []
        then trim (the (w (the co)))
      else if co \<noteq> None \<and> \<not> hasW (the co) \<and> v (the co) \<noteq> JUndef \<and> v (the co) \<noteq> JNull \<and>
              String (v (the co)) \<noteq> []
        then String (v (the co))
      else if rawPresent raw \<and> inSerialRange (rawNumValue raw)
        then serialText (rawNumValue raw)
      else if rawPresent raw
        then trim (String raw)
      else '''')"

section \<open>Complete records\<close>

definition isText :: "jsval \<Rightarrow> bool" where
  "isText x \<longleftrightarrow> (case x of JStr s \<Rightarrow> True | _ \<Rightarrow> False)"

text \<open>
  A record with all ten fields in place: text in the text fields, the empty text or a
  number in the two parsed integer fields, the number 0 in the two fixed fields.
\<close>

definition completeRecord :: "jsobject \<Rightarrow> bool" where
  "completeRecord r \<longleftrightarrow>
     isText (r ''Id'') \<and> isText (r ''BookingNumber'') \<and> isText (r ''OTANumber'') \<and>
     isText (r ''Name'') \<and>
     (r ''NumberOfAdults'' = JStr '''' \<or> isNumber (r ''NumberOfAdults'')) \<and>
     r ''NumberOfTeens'' = JNum 0 \<and>
     (r ''NumberOfChildren'' = JStr '''' \<or> isNumber (r ''NumberOfChildren'')) \<and>
     r ''NumberOfBabys'' = JNum 0 \<and>
     isText (r ''DateFrom'') \<and> isText (r ''DateTo'')"

section \<open>Column resolution: the first alias, the leftmost cell\<close>

lemma findColumnIndexFrom_none:
  "0 \<le> i \<Longrightarrow> findColumnIndexFrom h nm i = - 1 \<longleftrightarrow> (\<forall>x \<in> set h. headerValue x \<noteq> nm)"
  by (induction h arbitrary: i) auto

lemma findColumnIndexFrom_leftmost:
  "k < length h \<Longrightarrow> headerValue (h ! k) = nm \<Longrightarrow> \<forall>j<k. headerValue (h ! j) \<noteq> nm
   \<Longrightarrow> findColumnIndexFrom h nm i = i + int k"
proof (induction h arbitrary: i k)
  case Nil
  then show ?case by simp
next
  case (Cons x xs)
  show ?case
  proof (cases k)
    case 0
    with Cons.prems show ?thesis by simp
  next
    case (Suc k')
    from Cons.prems Suc have "headerValue x \<noteq> nm" by auto
    moreover have "findColumnIndexFrom xs nm (i + 1) = i + 1 + int k'"
      using Cons.prems Suc by (intro Cons.IH) auto
    ultimately show ?thesis using Suc by simp
  qed
qed

lemma findColumnIndex_none:
  "findColumnIndex h a = - 1 \<longleftrightarrow> (\<forall>x \<in> set h. \<not> headerMatches x a)"
  by (simp add: findColumnIndex_def headerMatches_def findColumnIndexFrom_none)

lemma findColumnIndex_leftmost:
  "k < length h \<Longrightarrow> headerMatches (h ! k) a \<Longrightarrow> \<forall>j<k. \<not> headerMatches (h ! j) a
   \<Longrightarrow> findColumnIndex h a = int k"
  using findColumnIndexFrom_leftmost [of k h "toLowerCase (trim a)" 0]
  by (simp add: findColumnIndex_def headerMatches_def)

lemma firstFound_none:
  "firstFound h ps = - 1 \<longleftrightarrow> (\<forall>p \<in> set ps. \<forall>x \<in> set h. \<not> headerMatches x p)"
  by (induction ps) (auto simp: Let_def findColumnIndex_none)

lemma firstFound_first_alias:
  "(\<forall>b \<in> set pre. \<forall>x \<in> set h. \<not> headerMatches x b) \<Longrightarrow> k < length h
   \<Longrightarrow> headerMatches (h ! k) a \<Longrightarrow> \<forall>j<k. \<not> headerMatches (h ! j) a
   \<Longrightarrow> firstFound h (pre @ a # post) = int k"
proof (induction pre)
  case Nil
  then show ?case by (simp add: Let_def findColumnIndex_leftmost)
next
  case (Cons b pre)
  then have "findColumnIndex h b = - 1" by (simp add: findColumnIndex_none)
  with Cons show ?case by (simp add: Let_def)
qed

lemma foldl_upd_other:
  "k \<notin> fst ` set m \<Longrightarrow> foldl (\<lambda>ind (n, c). ind(n := g c)) f m k = f k"
  by (induction m arbitrary: f) auto

lemma foldl_upd_lookup:
  "distinct (map fst m) \<Longrightarrow> (k, cfg) \<in> set m \<Longrightarrow> foldl (\<lambda>ind (n, c). ind(n := g c)) f m k = g cfg"
  by (induction m arbitrary: f) (auto simp: foldl_upd_other rev_image_eqI)

lemma distinct_columnMapping: "distinct (map fst columnMapping)"
  by (simp add: columnMapping_def)

lemma findColumnIndices_field:
  "(field, config) \<in> set columnMapping \<Longrightarrow>
   findColumnIndices h field = firstFound h (possibleNames config)"
  unfolding findColumnIndices_def
  by (rule foldl_upd_lookup [OF distinct_columnMapping])

text \<open>
  Claim C2. For every header row and every field of the column mapping, the resolved index
  is the position of the leftmost header cell that equals (trimmed, case ignored) the
  first alias, in declared order, that matches any header cell; the index is -1 exactly
  when no alias of the field matches any header cell.
\<close>

theorem findColumnIndices_first_alias_leftmost:
  assumes "(field, config) \<in> set columnMapping"
  shows "(findColumnIndices headerRow field = - 1 \<longleftrightarrow>
           (\<forall>a \<in> set (possibleNames config). \<forall>x \<in> set headerRow. \<not> headerMatches x a)) \<and>
         (\<forall>pre a post k.
            possibleNames config = pre @ a # post \<and>
            (\<forall>b \<in> set pre. \<forall>x \<in> set headerRow. \<not> headerMatches x b) \<and>
            k < length headerRow \<and> headerMatches (headerRow ! k) a \<and>
            (\<forall>j<k. \<not> headerMatches (headerRow ! j) a)
            \<longrightarrow> findColumnIndices headerRow field = int k)"
  using assms
  by (auto simp: findColumnIndices_field firstFound_none firstFound_first_alias)

theorem findColumnIndices_first_alias_leftmost_witness:
  "(''NumberOfAdults'', \<lparr>possibleNames = [''AD'', ''Adults''], ftype = TNumber\<rparr>) \<in> set columnMapping \<and>
   headerMatches ([JStr '' voucher '', JStr ''ADULTS'', JStr '' Ad''] ! 2) ''AD'' \<and>
   \<not> headerMatches ([JStr '' voucher '', JStr ''ADULTS'', JStr '' Ad''] ! 0) ''AD'' \<and>
   \<not> headerMatches ([JStr '' voucher '', JStr ''ADULTS'', JStr '' Ad''] ! 1) ''AD'' \<and>
   findColumnIndices [JStr '' voucher '', JStr ''ADULTS'', JStr '' Ad''] ''NumberOfAdults'' = 2 \<and>
   findColumnIndices [JStr '' voucher '', JStr ''ADULTS'', JStr '' Ad''] ''Name'' = - 1"
proof -
  let ?h = "[JStr '' voucher '', JStr ''ADULTS'', JStr '' Ad'']"
  let ?c = "\<lparr>possibleNames = [''AD'', ''Adults''], ftype = TNumber\<rparr>"
  let ?n = "\<lparr>possibleNames = [''Main Guest''], ftype = TString\<rparr>"
  have m: "(''NumberOfAdults'', ?c) \<in> set columnMapping" by (simp add: columnMapping_def)
  have mn: "(''Name'', ?n) \<in> set columnMapping" by (simp add: columnMapping_def)
  have a: "headerMatches (?h ! 2) ''AD''" by code_simp
  have b: "\<not> headerMatches (?h ! 0) ''AD''" by code_simp
  have c: "\<not> headerMatches (?h ! 1) ''AD''" by code_simp
  have d: "\<forall>j<2. \<not> headerMatches (?h ! j) ''AD''"
    using b c by (auto simp: less_Suc_eq numeral_2_eq_2)
  have e: "\<forall>a \<in> set (possibleNames ?n). \<forall>x \<in> set ?h. \<not> headerMatches x a" by code_simp
  have "findColumnIndices ?h ''NumberOfAdults'' = int 2"
    by (rule findColumnIndices_first_alias_leftmost [OF m, of ?h, THEN conjunct2,
          THEN spec [of _ "[]"], THEN spec [of _ "''AD''"], THEN spec [of _ "[''Adults'']"],
          THEN spec [of _ 2], THEN mp]) (use a d in simp)
  moreover have "findColumnIndices ?h ''Name'' = - 1"
    using findColumnIndices_first_alias_leftmost [OF mn, of ?h] e by blast
  ultimately show ?thesis using m a b c by simp
qed

section \<open>The fields of a transformed record\<close>

lemma foldl_transformField:
  "distinct (map fst m) \<Longrightarrow>
   foldl (transformField this row ci ri) acc m k =
     (case map_of m k of
        None \<Rightarrow> acc k
      | Some config \<Rightarrow> if ci k = - 1 then acc k else fieldResult this row ri (ci k) k config)"
proof (induction m arbitrary: acc)
  case Nil
  then show ?case by simp
next
  case (Cons e m)
  obtain n c where e: "e = (n, c)" by (cases e)
  let ?F = "transformField this row ci ri"
  have nm: "map_of m n = None" using Cons.prems e by (simp add: map_of_eq_None_iff)
  have step: "?F acc e = (if ci n = - 1 then acc else acc(n := fieldResult this row ri (ci n) n c))"
    by (simp add: transformField_def e)
  have "foldl ?F acc (e # m) k = foldl ?F (?F acc e) m k" by simp
  also have "\<dots> = (case map_of m k of
        None \<Rightarrow> ?F acc e k
      | Some config \<Rightarrow> if ci k = - 1 then ?F acc e k else fieldResult this row ri (ci k) k config)"
    using Cons.prems by (intro Cons.IH) simp
  also have "\<dots> = (case map_of (e # m) k of
        None \<Rightarrow> acc k
      | Some config \<Rightarrow> if ci k = - 1 then acc k else fieldResult this row ri (ci k) k config)"
    unfolding step using nm by (cases "k = n") (auto simp: e split: option.splits)
  finally show ?case .
qed

lemma transformRow_field:
  "transformRow this row ci rid ri k =
     (if k = ''Id'' then jsOr (transformRow this row ci rid ri ''BookingNumber'') (JStr '''')
      else case map_of columnMapping k of
             None \<Rightarrow> emptyRecord k
           | Some config \<Rightarrow>
               if ci k = - 1 then emptyRecord k else fieldResult this row ri (ci k) k config)"
  by (simp add: transformRow_def Let_def foldl_transformField [OF distinct_columnMapping])

lemma map_of_columnMapping:
  "map_of columnMapping ''BookingNumber'' = Some \<lparr>possibleNames = [''Reservation Number'', ''Reservation Num''], ftype = TString\<rparr>"
  "map_of columnMapping ''OTANumber'' = Some \<lparr>possibleNames = [''Voucher''], ftype = TString\<rparr>"
  "map_of columnMapping ''Name'' = Some \<lparr>possibleNames = [''Main Guest''], ftype = TString\<rparr>"
  "map_of columnMapping ''NumberOfAdults'' = Some \<lparr>possibleNames = [''AD'', ''Adults''], ftype = TNumber\<rparr>"
  "map_of columnMapping ''NumberOfChildren'' = Some \<lparr>possibleNames = [''CH'', ''Children''], ftype = TNumber\<rparr>"
  "map_of columnMapping ''DateFrom'' = Some \<lparr>possibleNames = [''Arrival'', ''Arrival Date''], ftype = TString\<rparr>"
  "map_of columnMapping ''DateTo'' = Some \<lparr>possibleNames = [''Departure'', ''Departure Date''], ftype = TString\<rparr>"
  "map_of columnMapping ''NumberOfTeens'' = None"
  "map_of columnMapping ''NumberOfBabys'' = None"
  "map_of columnMapping ''Id'' = None"
  by (simp_all add: columnMapping_def)

lemma emptyRecord_fields:
  "emptyRecord ''Id'' = JStr ''''" "emptyRecord ''BookingNumber'' = JStr ''''"
  "emptyRecord ''OTANumber'' = JStr ''''" "emptyRecord ''Name'' = JStr ''''"
  "emptyRecord ''NumberOfAdults'' = JStr ''''" "emptyRecord ''NumberOfTeens'' = JNum 0"
  "emptyRecord ''NumberOfChildren'' = JStr ''''" "emptyRecord ''NumberOfBabys'' = JNum 0"
  "emptyRecord ''DateFrom'' = JStr ''''" "emptyRecord ''DateTo'' = JStr ''''"
  by (simp_all add: emptyRecord_def)

lemma transformRow_BookingNumber:
  "transformRow this row ci rid ri ''BookingNumber'' =
     (if ci ''BookingNumber'' = - 1 then JStr ''''
      else JStr (stripLeadingZero (getCellValue this row (ci ''BookingNumber'') ri ''BookingNumber'')))"
  by (simp add: transformRow_field map_of_columnMapping emptyRecord_fields fieldResult_def isDateField_def)

lemma transformRow_OTANumber:
  "transformRow this row ci rid ri ''OTANumber'' =
     (if ci ''OTANumber'' = - 1 then JStr ''''
      else JStr (getCellValue this row (ci ''OTANumber'') ri ''OTANumber''))"
  by (simp add: transformRow_field map_of_columnMapping emptyRecord_fields fieldResult_def isDateField_def)

lemma transformRow_Name:
  "transformRow this row ci rid ri ''Name'' =
     (if ci ''Name'' = - 1 then JStr ''''
      else JStr (getCellValue this row (ci ''Name'') ri ''Name''))"
  by (simp add: transformRow_field map_of_columnMapping emptyRecord_fields fieldResult_def isDateField_def)

lemma transformRow_NumberOfAdults:
  "transformRow this row ci rid ri ''NumberOfAdults'' =
     (if ci ''NumberOfAdults'' = - 1 then JStr ''''
      else (case parseInt (getCellValue this row (ci ''NumberOfAdults'') ri ''NumberOfAdults'') of
              None \<Rightarrow> JStr '''' | Some n \<Rightarrow> JNum n))"
  by (simp add: transformRow_field map_of_columnMapping emptyRecord_fields fieldResult_def isDateField_def)

lemma transformRow_NumberOfChildren:
  "transformRow this row ci rid ri ''NumberOfChildren'' =
     (if ci ''NumberOfChildren'' = - 1 then JStr ''''
      else (case parseInt (getCellValue this row (ci ''NumberOfChildren'') ri ''NumberOfChildren'') of
              None \<Rightarrow> JStr '''' | Some n \<Rightarrow> JNum n))"
  by (simp add: transformRow_field map_of_columnMapping emptyRecord_fields fieldResult_def isDateField_def)

lemma transformRow_DateFrom:
  "transformRow this row ci rid ri ''DateFrom'' =
     (if ci ''DateFrom'' = - 1 then JStr '''' else JStr (dateValue this row (ci ''DateFrom'') ri))"
  by (simp add: transformRow_field map_of_columnMapping emptyRecord_fields fieldResult_def isDateField_def)

lemma transformRow_DateTo:
  "transformRow this row ci rid ri ''DateTo'' =
     (if ci ''DateTo'' = - 1 then JStr '''' else JStr (dateValue this row (ci ''DateTo'') ri))"
  by (simp add: transformRow_field map_of_columnMapping emptyRecord_fields fieldResult_def isDateField_def)

lemma transformRow_NumberOfTeens: "transformRow this row ci rid ri ''NumberOfTeens'' = JNum 0"
  by (simp add: transformRow_field map_of_columnMapping emptyRecord_fields)

lemma transformRow_NumberOfBabys: "transformRow this row ci rid ri ''NumberOfBabys'' = JNum 0"
  by (simp add: transformRow_field map_of_columnMapping emptyRecord_fields)

lemma transformRow_Id:
  "transformRow this row ci rid ri ''Id'' = transformRow this row ci rid ri ''BookingNumber''"
  by (subst transformRow_field) (simp add: transformRow_BookingNumber jsOr_def)

section \<open>Serial dates\<close>

lemma serial_2: "formatDate (excelDateToJSDate (FNum 2)) = ''01.01.1900''"
  by code_simp

lemma serial_1: "formatDate (excelDateToJSDate (FNum 1)) = ''31.12.1899''"
  by code_simp

lemma cellAddress_A2: "cellAddress 0 1 = ''A2''"
  by code_simp

lemma intToString_1: "intToString 1 = ''1''"
  by code_simp

lemma dateValue_serial_2:
  assumes "columnIndex \<noteq> - 1" "rowIndex > 0" "this_worksheet this = Some ws"
    and "cells ws (cellAddress columnIndex rowIndex) = Some c" "v c = JNum 2"
    and "\<not> (hasW c \<and> matchesDDMMYYYY (trim (the (w c))))"
  shows "dateValue this row columnIndex rowIndex = ''01.01.1900''"
proof -
  have "worksheetDateValue this columnIndex rowIndex = ''01.01.1900''"
    using assms by (auto simp: worksheetDateValue_def Let_def serial_2)
  then show ?thesis by (simp add: dateValue_def Let_def)
qed

lemma dateValue_serial_1:
  assumes "columnIndex \<noteq> - 1" "rowIndex > 0" "this_worksheet this = Some ws"
    and "cells ws (cellAddress columnIndex rowIndex) = Some c" "v c = JNum 1" "\<not> hasW c"
  shows "dateValue this row columnIndex rowIndex = ''1''"
proof -
  have "worksheetDateValue this columnIndex rowIndex = ''1''"
    using assms by (simp add: worksheetDateValue_def Let_def intToString_1)
  then show ?thesis by (simp add: dateValue_def Let_def)
qed

lemma dateValue_raw_serial_2:
  assumes "this_worksheet this = None" "elemAt row columnIndex = JNum 2"
  shows "dateValue this row columnIndex rowIndex = ''01.01.1900''"
  using assms
  by (simp add: dateValue_def worksheetDateValue_def Let_def rawNumValue_def isNumber_def serial_2)

lemma dateValue_raw_serial_1:
  assumes "this_worksheet this = None" "elemAt row columnIndex = JNum 1"
  shows "dateValue this row columnIndex rowIndex = ''1''"
  using assms
  by (simp add: dateValue_def worksheetDateValue_def Let_def rawNumValue_def isNumber_def
      intToString_1 trim_def isWhiteSpace_def)

lemma transformRow_date_field:
  "isDateField field \<Longrightarrow> ci field \<noteq> - 1 \<Longrightarrow>
   transformRow this row ci rid ri field = JStr (dateValue this row (ci field) ri)"
  by (auto simp: isDateField_def transformRow_DateFrom transformRow_DateTo)

text \<open>
  Claim C3, as amended. The serial conversion (the epoch of 30 December 1899 plus the
  serial in days, formatted as DD.MM.YYYY) maps serial 2 to 01.01.1900 and serial 1 to
  31.12.1899. A date field whose cell holds the number 2 becomes 01.01.1900, unless the
  cell has a display text that already has the form DD.MM.YYYY; so does a raw value 2
  when no worksheet is at hand. A cell that holds the number 1 lies outside the range
  1 < v < 1000000 in which a number is read as a serial: it is not converted, and with no
  display text the field is the text 1.
\<close>

theorem serial_conversion_within_range:
  "formatDate (excelDateToJSDate (FNum 2)) = ''01.01.1900'' \<and>
   formatDate (excelDateToJSDate (FNum 1)) = ''31.12.1899'' \<and>
   (\<forall>this row ci rid rowIndex ws c field.
      isDateField field \<and> ci field \<noteq> - 1 \<and> rowIndex > 0 \<and> this_worksheet this = Some ws \<and>
      cells ws (cellAddress (ci field) rowIndex) = Some c \<and> v c = JNum 2 \<and>
      \<not> (hasW c \<and> matchesDDMMYYYY (trim (the (w c))))
      \<longrightarrow> transformRow this row ci rid rowIndex field = JStr ''01.01.1900'') \<and>
   (\<forall>this row ci rid rowIndex field.
      isDateField field \<and> ci field \<noteq> - 1 \<and> this_worksheet this = None \<and>
      elemAt row (ci field) = JNum 2
      \<longrightarrow> transformRow this row ci rid rowIndex field = JStr ''01.01.1900'') \<and>
   (\<forall>this row ci rid rowIndex ws c field.
      isDateField field \<and> ci field \<noteq> - 1 \<and> rowIndex > 0 \<and> this_worksheet this = Some ws \<and>
      cells ws (cellAddress (ci field) rowIndex) = Some c \<and> v c = JNum 1 \<and> \<not> hasW c
      \<longrightarrow> transformRow this row ci rid rowIndex field = JStr ''1'') \<and>
   (\<forall>this row ci rid rowIndex field.
      isDateField field \<and> ci field \<noteq> - 1 \<and> this_worksheet this = None \<and>
      elemAt row (ci field) = JNum 1
      \<longrightarrow> transformRow this row ci rid rowIndex field = JStr ''1'')"
  by (simp add: serial_2 serial_1 transformRow_date_field dateValue_serial_2 dateValue_serial_1
      dateValue_raw_serial_2 dateValue_raw_serial_1)

theorem serial_conversion_within_range_witness:
  "transformRow (oneCellParser ''A2'' \<lparr>w = None, v = JNum 2, t = ''n''\<rparr>) [JNum 2]
     (onlyColumn ''DateFrom'' 0) 1 1 ''DateFrom'' = JStr ''01.01.1900'' \<and>
   transformRow (oneCellParser ''A2'' \<lparr>w = None, v = JNum 1, t = ''n''\<rparr>) [JNum 1]
     (onlyColumn ''DateFrom'' 0) 1 1 ''DateFrom'' = JStr ''1'' \<and>
   transformRow constructor [JNum 2] (onlyColumn ''DateTo'' 0) 1 1 ''DateTo'' = JStr ''01.01.1900'' \<and>
   transformRow constructor [JNum 1] (onlyColumn ''DateTo'' 0) 1 1 ''DateTo'' = JStr ''1''"
proof -
  let ?c2 = "\<lparr>w = None, v = JNum 2, t = ''n''\<rparr>"
  let ?c1 = "\<lparr>w = None, v = JNum 1, t = ''n''\<rparr>"
  let ?ci = "onlyColumn ''DateFrom'' 0"
  let ?ct = "onlyColumn ''DateTo'' 0"
  note T = serial_conversion_within_range
  have a: "transformRow (oneCellParser ''A2'' ?c2) [JNum 2] ?ci 1 1 ''DateFrom'' = JStr ''01.01.1900''"
    by (rule T [THEN conjunct2, THEN conjunct2, THEN conjunct1, rule_format,
          where ws = "\<lparr>cells = (\<lambda>a. if a = ''A2'' then Some ?c2 else None), sheetRows = []\<rparr>" and c = ?c2])
       (simp add: isDateField_def onlyColumn_def oneCellParser_def cellAddress_A2 hasW_def)
  have b: "transformRow (oneCellParser ''A2'' ?c1) [JNum 1] ?ci 1 1 ''DateFrom'' = JStr ''1''"
    by (rule T [THEN conjunct2, THEN conjunct2, THEN conjunct2, THEN conjunct2, THEN conjunct1, rule_format,
          where ws = "\<lparr>cells = (\<lambda>a. if a = ''A2'' then Some ?c1 else None), sheetRows = []\<rparr>" and c = ?c1])
       (simp add: isDateField_def onlyColumn_def oneCellParser_def cellAddress_A2 hasW_def)
  have c: "transformRow constructor [JNum 2] ?ct 1 1 ''DateTo'' = JStr ''01.01.1900''"
    by (rule T [THEN conjunct2, THEN conjunct2, THEN conjunct2, THEN conjunct1, rule_format])
       (simp add: isDateField_def onlyColumn_def constructor_def elemAt_def)
  have d: "transformRow constructor [JNum 1] ?ct 1 1 ''DateTo'' = JStr ''1''"
    by (rule T [THEN conjunct2, THEN conjunct2, THEN conjunct2, THEN conjunct2, THEN conjunct2, rule_format])
       (simp add: isDateField_def onlyColumn_def constructor_def elemAt_def)
  from a b c d show ?thesis by simp
qed

text \<open>
  Claim C3 as stated fails: a date field whose cell holds the serial 1 does not become
  31.12.1899. With no display text the field is the text 1, whether the value is read
  from the worksheet cell or from the row.
\<close>

theorem serial_1_not_converted:
  "transformRow (oneCellParser ''A2'' \<lparr>w = None, v = JNum 1, t = ''n''\<rparr>) [JNum 1]
     (onlyColumn ''DateFrom'' 0) 1 1 ''DateFrom'' \<noteq> JStr ''31.12.1899'' \<and>
   transformRow constructor [JNum 1] (onlyColumn ''DateFrom'' 0) 1 1 ''DateFrom'' \<noteq> JStr ''31.12.1899''"
proof -
  let ?c1 = "\<lparr>w = None, v = JNum 1, t = ''n''\<rparr>"
  have "dateValue (oneCellParser ''A2'' ?c1) [JNum 1] 0 1 = ''1''"
    by (rule dateValue_serial_1 [where c = ?c1
          and ws = "\<lparr>cells = (\<lambda>a. if a = ''A2'' then Some ?c1 else None), sheetRows = []\<rparr>"])
       (simp_all add: oneCellParser_def cellAddress_A2 hasW_def)
  moreover have "dateValue constructor [JNum 1] 0 1 = ''1''"
    by (rule dateValue_raw_serial_1) (simp_all add: constructor_def elemAt_def)
  ultimately show ?thesis
    by (simp add: transformRow_DateFrom onlyColumn_def)
qed

section \<open>The order of the date rules\<close>

lemma formatDate_Some_nonempty: "formatDate (Some tv) \<noteq> []"
  by (simp add: formatDate_def split: prod.splits)

lemma excelEpoch_value: "newDate 1899 11 30 = Some (- 2209161600000)"
  by code_simp

lemma excelDateToJSDate_in_range:
  assumes "inSerialRange x"
  shows "excelDateToJSDate x \<noteq> None"
proof -
  from assms obtain q where x: "x = FNum q" and q: "1 < q" "q < 1000000"
    by (cases x) auto
  have "\<bar>- 2209161600000 + q * 24 * 60 * 60 * 1000\<bar> \<le> 8640000000000000"
    using q by simp
  then show ?thesis
    by (simp add: excelDateToJSDate_def excelEpoch_value x)
qed

lemma serialText_nonempty: "inSerialRange x \<Longrightarrow> serialText x \<noteq> []"
  using excelDateToJSDate_in_range [of x]
  by (auto simp: serialText_def formatDate_Some_nonempty)

lemma numberInSerialRange_toNumber: "numberInSerialRange x \<Longrightarrow> inSerialRange (toNumber x)"
  by (cases x) auto

lemma worksheetDateValue_lookupCell:
  "worksheetDateValue this columnIndex rowIndex =
     (case lookupCell this columnIndex rowIndex of
        None \<Rightarrow> ''''
      | Some cell \<Rightarrow>
          if hasW cell then
            (if matchesDDMMYYYY (trim (the (w cell))) then trim (the (w cell))
             else if numberInSerialRange (v cell) then serialText (toNumber (v cell))
             else trim (the (w cell)))
          else if numberInSerialRange (v cell) then serialText (toNumber (v cell))
          else if v cell \<noteq> JUndef \<and> v cell \<noteq> JNull then String (v cell)
          else '''')"
proof -
  have n: "\<not> numberInSerialRange JUndef" "\<not> numberInSerialRange JNull" by simp_all
  show ?thesis
    by (cases "v (the (lookupCell this columnIndex rowIndex))")
       (auto simp: worksheetDateValue_def lookupCell_def Let_def serialText_def split: option.splits)
qed

lemma dateValue_fallback:
  "dateValue this row columnIndex rowIndex =
     (if worksheetDateValue this columnIndex rowIndex = [] \<and> rawPresent (elemAt row columnIndex)
      then (if inSerialRange (rawNumValue (elemAt row columnIndex))
            then serialText (rawNumValue (elemAt row columnIndex))
            else trim (String (elemAt row columnIndex)))
      else worksheetDateValue this columnIndex rowIndex)"
  by (simp add: dateValue_def Let_def rawPresent_def serialText_def)

lemma dateSteps_of_cell_text:
  assumes "co = Some c" and "x \<noteq> []"
    and "(hasW c \<and> matchesDDMMYYYY (trim (the (w c))) \<and> x = trim (the (w c))) \<or>
         (\<not> (hasW c \<and> matchesDDMMYYYY (trim (the (w c)))) \<and> numberInSerialRange (v c) \<and>
            x = serialText (toNumber (v c))) \<or>
         (\<not> matchesDDMMYYYY (trim (the (w c))) \<and> \<not> numberInSerialRange (v c) \<and> hasW c \<and>
            x = trim (the (w c))) \<or>
         (\<not> numberInSerialRange (v c) \<and> \<not> hasW c \<and> v c \<noteq> JUndef \<and> v c \<noteq> JNull \<and>
            x = String (v c))"
  shows "dateSteps co raw = x"
  using assms unfolding dateSteps_def by (elim disjE conjE) auto

lemma dateSteps_of_raw:
  assumes "co = None \<or>
           (co = Some c \<and> \<not> numberInSerialRange (v c) \<and>
              ((hasW c \<and> trim (the (w c)) = []) \<or>
               (\<not> hasW c \<and> (v c = JUndef \<or> v c = JNull \<or> String (v c) = []))))"
  shows "dateSteps co raw =
           (if rawPresent raw
            then (if inSerialRange (rawNumValue raw) then serialText (rawNumValue raw)
                  else trim (String raw))
            else [])"
proof -
  have m: "trim (the (w c)) = [] \<Longrightarrow> \<not> matchesDDMMYYYY (trim (the (w c)))"
    by (simp add: matchesDDMMYYYY_def)
  show ?thesis
    using assms m unfolding dateSteps_def by (elim disjE conjE) auto
qed

lemma dateValue_dateSteps:
  "dateValue this row columnIndex rowIndex =
     dateSteps (lookupCell this columnIndex rowIndex) (elemAt row columnIndex)"
proof (cases "lookupCell this columnIndex rowIndex")
  case None
  then have "worksheetDateValue this columnIndex rowIndex = []"
    by (simp add: worksheetDateValue_lookupCell)
  then show ?thesis
    by (simp add: dateValue_fallback dateSteps_of_raw [OF disjI1 [OF None]])
next
  case (Some c)
  let ?W = "worksheetDateValue this columnIndex rowIndex"
  let ?raw = "elemAt row columnIndex"
  have s: "numberInSerialRange (v c) \<Longrightarrow> serialText (toNumber (v c)) \<noteq> []"
    by (simp add: serialText_nonempty numberInSerialRange_toNumber)
  have m: "matchesDDMMYYYY (trim (the (w c))) \<Longrightarrow> trim (the (w c)) \<noteq> []"
    by (auto simp: matchesDDMMYYYY_def)
  have W: "?W = (if hasW c then
            (if matchesDDMMYYYY (trim (the (w c))) then trim (the (w c))
             else if numberInSerialRange (v c) then serialText (toNumber (v c))
             else trim (the (w c)))
          else if numberInSerialRange (v c) then serialText (toNumber (v c))
          else if v c \<noteq> JUndef \<and> v c \<noteq> JNull then String (v c)
          else [])"
    by (simp add: worksheetDateValue_lookupCell Some)
  show ?thesis
  proof (cases "?W = []")
    case True
    have "\<not> numberInSerialRange (v c) \<and>
              ((hasW c \<and> trim (the (w c)) = []) \<or>
               (\<not> hasW c \<and> (v c = JUndef \<or> v c = JNull \<or> String (v c) = [])))"
      using True s m unfolding W by (auto split: if_splits)
    then have "dateSteps (Some c) ?raw =
           (if rawPresent ?raw
            then (if inSerialRange (rawNumValue ?raw) then serialText (rawNumValue ?raw)
                  else trim (String ?raw))
            else [])"
      by (intro dateSteps_of_raw [where c = c]) simp
    then show ?thesis using True by (simp add: dateValue_fallback Some)
  next
    case False
    have "dateSteps (Some c) ?raw = ?W"
    proof (rule dateSteps_of_cell_text [where c = c])
      show "Some c = Some c" by simp
      show "?W \<noteq> []" by (rule False)
      show "(hasW c \<and> matchesDDMMYYYY (trim (the (w c))) \<and> ?W = trim (the (w c))) \<or>
         (\<not> (hasW c \<and> matchesDDMMYYYY (trim (the (w c)))) \<and> numberInSerialRange (v c) \<and>
            ?W = serialText (toNumber (v c))) \<or>
         (\<not> matchesDDMMYYYY (trim (the (w c))) \<and> \<not> numberInSerialRange (v c) \<and> hasW c \<and>
            ?W = trim (the (w c))) \<or>
         (\<not> numberInSerialRange (v c) \<and> \<not> hasW c \<and> v c \<noteq> JUndef \<and> v c \<noteq> JNull \<and>
            ?W = String (v c))"
        using False unfolding W by (auto split: if_splits)
    qed
    then show ?thesis using False by (simp add: dateValue_fallback Some)
  qed
qed

text \<open>
  Claim C4, as amended. For every date field, the value that \<open>transformRow\<close> stores is the
  outcome of the steps of \<open>dateSteps\<close>, taken in that order with the first success winning:
  the display text of the worksheet cell is used trimmed, not verbatim, and only when it
  is not blank; a cell without display text but with an underlying value that is no
  serial in range gives that value's text before the raw value is looked at; the steps
  on the raw value (conversion of a number or of numeric text in the range, else the
  trimmed text) apply only when the cell gave nothing; an unresolved column or no value
  at all gives the empty text.
\<close>

theorem date_field_follows_dateSteps:
  "transformRow this row ci rid rowIndex ''DateFrom'' =
     (if ci ''DateFrom'' = - 1 then JStr ''''
      else JStr (dateSteps (lookupCell this (ci ''DateFrom'') rowIndex) (elemAt row (ci ''DateFrom'')))) \<and>
   transformRow this row ci rid rowIndex ''DateTo'' =
     (if ci ''DateTo'' = - 1 then JStr ''''
      else JStr (dateSteps (lookupCell this (ci ''DateTo'') rowIndex) (elemAt row (ci ''DateTo''))))"
  by (simp add: transformRow_DateFrom transformRow_DateTo dateValue_dateSteps)

lemma serial_45000: "serialText (FNum 45000) = ''15.03.2023''"
  by code_simp

lemma parseFloat_45000: "parseFloat ''45000'' = FNum 45000"
  by (simp add: parseFloat_def trimStart_def dropSign_def startsWith_def decimalLiteral_def
      isDigit_def hasExponent_def exponentVal_def digitsVal_def digitVal_def pow10_def Let_def
      isWhiteSpace_def)

lemma trim_padded: "trim '' 2,000,000.00 '' = ''2,000,000.00''"
  by code_simp

text \<open>
  Claim C4 as stated fails. A cell without display text whose underlying value is the
  text 45000, the row holding the same text: the six steps as stated reach step (4) and
  convert it to 15.03.2023, the code stores the text 45000. A cell whose display text is
  padded with blanks and whose number is outside the range: the six steps use the display
  text verbatim, the code stores it trimmed.
\<close>

theorem six_steps_not_followed:
  "sixStepDate None (JStr ''45000'') (JStr ''45000'') = ''15.03.2023'' \<and>
   transformRow (oneCellParser ''A2'' \<lparr>w = None, v = JStr ''45000'', t = ''s''\<rparr>) [JStr ''45000'']
     (onlyColumn ''DateFrom'' 0) 1 1 ''DateFrom'' = JStr ''45000'' \<and>
   sixStepDate (Some '' 2,000,000.00 '') (JNum 2000000) (JNum 2000000) = '' 2,000,000.00 '' \<and>
   transformRow (oneCellParser ''A2'' \<lparr>w = Some '' 2,000,000.00 '', v = JNum 2000000, t = ''n''\<rparr>)
     [JNum 2000000] (onlyColumn ''DateFrom'' 0) 1 1 ''DateFrom'' = JStr ''2,000,000.00''"
proof -
  let ?c = "\<lparr>w = None, v = JStr ''45000'', t = ''s''\<rparr>"
  let ?d = "\<lparr>w = Some '' 2,000,000.00 '', v = JNum 2000000, t = ''n''\<rparr>"
  have a: "sixStepDate None (JStr ''45000'') (JStr ''45000'') = ''15.03.2023''"
    by (simp add: sixStepDate_def rawPresent_def parseFloat_45000 serial_45000)
  have lc: "lookupCell (oneCellParser ''A2'' ?c) 0 1 = Some ?c"
    by (simp add: lookupCell_def oneCellParser_def cellAddress_A2)
  have b: "dateValue (oneCellParser ''A2'' ?c) [JStr ''45000''] 0 1 = ''45000''"
    by (simp add: dateValue_dateSteps lc dateSteps_def hasW_def)
  have c: "sixStepDate (Some '' 2,000,000.00 '') (JNum 2000000) (JNum 2000000) = '' 2,000,000.00 ''"
    by (simp add: sixStepDate_def matchesDDMMYYYY_def)
  have ld: "lookupCell (oneCellParser ''A2'' ?d) 0 1 = Some ?d"
    by (simp add: lookupCell_def oneCellParser_def cellAddress_A2)
  have d: "dateValue (oneCellParser ''A2'' ?d) [JNum 2000000] 0 1 = ''2,000,000.00''"
    by (simp add: dateValue_dateSteps ld dateSteps_def hasW_def trim_padded matchesDDMMYYYY_def)
  from a b c d show ?thesis
    by (simp add: transformRow_DateFrom onlyColumn_def)
qed

section \<open>Text cells, booking numbers and integer fields\<close>

lemma getCellValue_plain:
  "\<not> isDateField columnName \<Longrightarrow>
   getCellValue this row index rowIndex columnName =
     (if index = - 1 \<or> elemAt row index = JUndef \<or> elemAt row index = JNull then ''''
      else trim (String (elemAt row index)))"
  by (simp add: getCellValue_def Let_def)

lemma not_isDateField [simp]:
  "\<not> isDateField ''''" "\<not> isDateField ''BookingNumber''" "\<not> isDateField ''OTANumber''"
  "\<not> isDateField ''Name''" "\<not> isDateField ''NumberOfAdults''" "\<not> isDateField ''NumberOfChildren''"
  by (simp_all add: isDateField_def)

lemma trim_Nil [simp]: "trim [] = []"
  by (simp add: trim_def)

lemma trim_eq_Nil: "trim s = [] \<longleftrightarrow> (\<forall>c \<in> set s. isWhiteSpace c)"
proof -
  have "trim s = [] \<longleftrightarrow> (\<forall>c \<in> set (dropWhile isWhiteSpace s). isWhiteSpace c)"
    by (simp add: trim_def)
  also have "\<dots> \<longleftrightarrow> dropWhile isWhiteSpace s = []"
  proof
    assume a: "\<forall>c \<in> set (dropWhile isWhiteSpace s). isWhiteSpace c"
    show "dropWhile isWhiteSpace s = []"
    proof (rule ccontr)
      assume n: "dropWhile isWhiteSpace s \<noteq> []"
      then have "\<not> isWhiteSpace (hd (dropWhile isWhiteSpace s))" by (rule hd_dropWhile)
      moreover have "hd (dropWhile isWhiteSpace s) \<in> set (dropWhile isWhiteSpace s)"
        using n by simp
      ultimately show False using a by blast
    qed
  qed (auto dest: set_dropWhileD)
  also have "\<dots> \<longleftrightarrow> (\<forall>c \<in> set s. isWhiteSpace c)"
    by simp
  finally show ?thesis .
qed

lemma trim_has_visible: "trim s \<noteq> [] \<Longrightarrow> \<exists>c \<in> set (trim s). \<not> isWhiteSpace c"
proof -
  assume n: "trim s \<noteq> []"
  let ?d = "dropWhile isWhiteSpace (rev (dropWhile isWhiteSpace s))"
  from n have d: "?d \<noteq> []" by (simp add: trim_def)
  then have "\<not> isWhiteSpace (hd ?d)" by (rule hd_dropWhile)
  moreover have "hd ?d \<in> set (trim s)" using d by (simp add: trim_def)
  ultimately show ?thesis by blast
qed

lemma trim_trim_eq_Nil: "trim (trim s) = [] \<longleftrightarrow> trim s = []"
  using trim_has_visible [of s] by (auto simp: trim_eq_Nil [of "trim s"])

lemma keepsRow_iff:
  "keepsRow this ci row \<longleftrightarrow>
     ci requiredColumn \<noteq> - 1 \<and> elemAt row (ci requiredColumn) \<noteq> JUndef \<and>
     elemAt row (ci requiredColumn) \<noteq> JNull \<and>
     trim (String (elemAt row (ci requiredColumn))) \<noteq> []"
  by (auto simp: keepsRow_def Let_def getCellValue_plain trim_trim_eq_Nil)

lemma stripLeadingZero_simps:
  "stripLeadingZero (CHR ''0'' # s) = s"
  "c \<noteq> CHR ''0'' \<Longrightarrow> stripLeadingZero (c # s) = c # s"
  "stripLeadingZero [] = []"
  by (simp_all add: stripLeadingZero_def startsWith_def)

text \<open>
  Claim C5. For every kept row, the stored BookingNumber is the text of the required cell
  (its value as text, trimmed) with exactly one leading character 0 removed when there is
  one and unchanged otherwise, and the field Id equals the stored BookingNumber:
  0012345 becomes 012345, 12345 stays, 0 becomes the empty text.
\<close>

theorem bookingNumber_one_leading_zero:
  assumes "keepsRow this ci row"
  shows "transformRow this row ci rid i ''BookingNumber'' =
           JStr (stripLeadingZero (getCellValue this row (ci ''BookingNumber'') i ''BookingNumber'')) \<and>
         getCellValue this row (ci ''BookingNumber'') i ''BookingNumber'' =
           trim (String (elemAt row (ci ''BookingNumber''))) \<and>
         transformRow this row ci rid i ''Id'' = transformRow this row ci rid i ''BookingNumber'' \<and>
         (\<forall>s. stripLeadingZero (CHR ''0'' # s) = s) \<and>
         (\<forall>c s. c \<noteq> CHR ''0'' \<longrightarrow> stripLeadingZero (c # s) = c # s) \<and>
         stripLeadingZero ''0012345'' = ''012345'' \<and>
         stripLeadingZero ''12345'' = ''12345'' \<and>
         stripLeadingZero ''0'' = ''''"
  using assms
  by (simp add: keepsRow_iff requiredColumn_def transformRow_BookingNumber transformRow_Id
      getCellValue_plain stripLeadingZero_simps)

theorem bookingNumber_one_leading_zero_witness:
  "keepsRow constructor (onlyColumn ''BookingNumber'' 0) [JStr '' 0012345''] \<and>
   transformRow constructor [JStr '' 0012345''] (onlyColumn ''BookingNumber'' 0) 1 1 ''BookingNumber''
     = JStr ''012345'' \<and>
   transformRow constructor [JStr '' 0012345''] (onlyColumn ''BookingNumber'' 0) 1 1 ''Id''
     = JStr ''012345''"
proof -
  let ?ci = "onlyColumn ''BookingNumber'' 0"
  let ?row = "[JStr '' 0012345'']"
  have t: "trim '' 0012345'' = ''0012345''" by code_simp
  have k: "keepsRow constructor ?ci ?row"
    by (simp add: keepsRow_iff requiredColumn_def onlyColumn_def elemAt_def t)
  have g: "getCellValue constructor ?row (?ci ''BookingNumber'') 1 ''BookingNumber'' = ''0012345''"
    by (simp add: getCellValue_plain onlyColumn_def elemAt_def t)
  from bookingNumber_one_leading_zero [OF k, of 1 1] g k show ?thesis
    by (simp add: stripLeadingZero_simps)
qed

lemma of_char_digitChar: "d < 10 \<Longrightarrow> (of_char (digitChar d) :: nat) = 48 + d"
  by (simp add: digitChar_def)

lemma isDigit_digitChar: "d < 10 \<Longrightarrow> isDigit (digitChar d)"
  by (simp add: isDigit_def of_char_digitChar)

lemma digitVal_digitChar: "d < 10 \<Longrightarrow> digitVal (digitChar d) = d"
  by (simp add: digitVal_def of_char_digitChar)

lemma natToString_digits: "c \<in> set (natToString n) \<Longrightarrow> isDigit c"
proof (induction n arbitrary: c rule: natToString.induct)
  case (1 n)
  show ?case
  proof (cases "n < 10")
    case True
    with "1.prems" show ?thesis
      by (subst (asm) natToString.simps) (simp add: isDigit_digitChar)
  next
    case False
    with "1.prems" have "c \<in> set (natToString (n div 10)) \<or> c = digitChar (n mod 10)"
      by (subst (asm) natToString.simps) auto
    then show ?thesis
      using "1.IH" [OF False] by (auto simp: isDigit_digitChar)
  qed
qed

lemma natToString_nonempty: "natToString n \<noteq> []"
  by (subst natToString.simps) simp

lemma digitsVal_snoc: "digitsVal (xs @ [c]) = 10 * digitsVal xs + digitVal c"
  by (simp add: digitsVal_def)

lemma digitsVal_natToString: "digitsVal (natToString n) = n"
proof (induction n rule: natToString.induct)
  case (1 n)
  show ?case
  proof (cases "n < 10")
    case True
    then show ?thesis
      by (subst natToString.simps) (simp add: digitsVal_def digitVal_digitChar)
  next
    case False
    then show ?thesis
      using "1.IH" [OF False]
      by (subst natToString.simps) (simp add: digitsVal_snoc digitVal_digitChar)
  qed
qed

lemma isDigit_plain:
  "isDigit c \<Longrightarrow> \<not> isWhiteSpace c \<and> c \<noteq> CHR ''-'' \<and> c \<noteq> CHR ''+''"
  by (auto simp: isDigit_def isWhiteSpace_def)

lemma takeWhile_natToString: "takeWhile isDigit (natToString n) = natToString n"
  by (simp add: takeWhile_eq_all_conv natToString_digits)

lemma parseInt_digits:
  assumes "s \<noteq> []" and "\<forall>c \<in> set s. isDigit c"
  shows "parseInt s = Some (int (digitsVal s))"
proof -
  from assms(1) obtain c cs where s: "s = c # cs" by (cases s) auto
  have "isDigit c" using assms(2) s by simp
  then have c: "\<not> isWhiteSpace c" "c \<noteq> CHR ''-''" "c \<noteq> CHR ''+''"
    using isDigit_plain by blast+
  have d: "dropWhile isWhiteSpace s = s" using c s by simp
  have h: "hd s = c" using s by simp
  have t: "takeWhile isDigit s = s" using assms(2) by (simp add: takeWhile_eq_all_conv)
  show ?thesis
    using c assms(1) by (simp add: parseInt_def trimStart_def Let_def d h t)
qed

lemma parseInt_minus_digits:
  assumes "s \<noteq> []" and "\<forall>c \<in> set s. isDigit c"
  shows "parseInt (CHR ''-'' # s) = Some (- int (digitsVal s))"
proof -
  have m: "\<not> isWhiteSpace CHR ''-''" by (simp add: isWhiteSpace_def)
  have t: "takeWhile isDigit s = s" using assms(2) by (simp add: takeWhile_eq_all_conv)
  show ?thesis
    using assms(1) by (simp add: parseInt_def trimStart_def Let_def m t)
qed

lemma parseInt_intToString: "parseInt (intToString n) = Some n"
proof (cases "n < 0")
  case False
  then show ?thesis
    using parseInt_digits [of "natToString (nat n)"] natToString_nonempty natToString_digits
    by (simp add: intToString_def digitsVal_natToString)
next
  case True
  then show ?thesis
    using parseInt_minus_digits [of "natToString (nat (- n))"] natToString_nonempty natToString_digits
    by (simp add: intToString_def digitsVal_natToString)
qed

lemma trim_visible:
  assumes "\<forall>c \<in> set s. \<not> isWhiteSpace c"
  shows "trim s = s"
proof -
  have "dropWhile isWhiteSpace s = s" using assms by (cases s) auto
  moreover have "\<forall>c \<in> set (rev s). \<not> isWhiteSpace c" using assms by simp
  then have "dropWhile isWhiteSpace (rev s) = rev s" by (cases "rev s") auto
  ultimately show ?thesis by (simp add: trim_def)
qed

lemma trim_intToString: "trim (intToString n) = intToString n"
proof (rule trim_visible)
  have m: "\<not> isWhiteSpace CHR ''-''" by (simp add: isWhiteSpace_def)
  show "\<forall>c \<in> set (intToString n). \<not> isWhiteSpace c"
    using m natToString_digits isDigit_plain by (auto simp: intToString_def)
qed

lemma parseInt_number_cell: "parseInt (trim (String (JNum n))) = Some n"
  by (simp add: trim_intToString parseInt_intToString)

lemma parseInt_examples:
  "parseInt '''' = None" "parseInt ''abc'' = None" "parseInt ''2'' = Some 2"
  "parseInt ''0'' = Some 0" "parseInt ''-'' = None"
  by (simp_all add: parseInt_def trimStart_def isWhiteSpace_def isDigit_def digitsVal_def
      digitVal_def Let_def)

text \<open>
  Claim C6. For every row, each of the integer fields NumberOfAdults and NumberOfChildren
  holds the integer that \<open>parseInt\<close> reads from the cell's text, which for a number cell
  is the number itself (stated for safe integers, where the source's doubles are exact).
  When the column is unresolved, or when \<open>parseInt\<close> fails on the text, the field holds
  the empty text, which is not the number 0; \<open>parseInt\<close> fails exactly when, after leading
  whitespace and an optional sign, the text does not start with a digit, as on the empty
  text and on text that is not numeric.
\<close>

theorem integer_fields_parse_or_empty:
  "field \<in> {''NumberOfAdults'', ''NumberOfChildren''} \<longrightarrow>
     (ci field = - 1 \<or> parseInt (getCellValue this row (ci field) i field) = None
        \<longrightarrow> transformRow this row ci rid i field = JStr '''' \<and>
            transformRow this row ci rid i field \<noteq> JNum 0) \<and>
     (ci field \<noteq> - 1 \<and> parseInt (getCellValue this row (ci field) i field) = Some n \<and>
      \<bar>n\<bar> \<le> maxSafeInteger
        \<longrightarrow> transformRow this row ci rid i field = JNum n) \<and>
     (ci field \<noteq> - 1 \<and> elemAt row (ci field) = JNum m \<and> \<bar>m\<bar> \<le> maxSafeInteger
        \<longrightarrow> transformRow this row ci rid i field = JNum m) \<and>
     getCellValue this row (ci field) i field =
       (if ci field = - 1 \<or> elemAt row (ci field) = JUndef \<or> elemAt row (ci field) = JNull then ''''
        else trim (String (elemAt row (ci field)))) \<and>
     (\<forall>s. (parseInt s = None) = (takeWhile isDigit (dropSign (trimStart s)) = [])) \<and>
     parseInt '''' = None \<and> parseInt ''abc'' = None"
proof -
  have f: "(parseInt s = None) = (takeWhile isDigit (dropSign (trimStart s)) = [])" for s
    by (simp add: parseInt_def dropSign_def Let_def)
  have g: "field \<in> {''NumberOfAdults'', ''NumberOfChildren''} \<longrightarrow>
     (ci field = - 1 \<or> parseInt (getCellValue this row (ci field) i field) = None
        \<longrightarrow> transformRow this row ci rid i field = JStr '''' \<and>
            transformRow this row ci rid i field \<noteq> JNum 0) \<and>
     (ci field \<noteq> - 1 \<and> parseInt (getCellValue this row (ci field) i field) = Some n \<and>
      \<bar>n\<bar> \<le> maxSafeInteger
        \<longrightarrow> transformRow this row ci rid i field = JNum n) \<and>
     (ci field \<noteq> - 1 \<and> elemAt row (ci field) = JNum m \<and> \<bar>m\<bar> \<le> maxSafeInteger
        \<longrightarrow> transformRow this row ci rid i field = JNum m) \<and>
     getCellValue this row (ci field) i field =
       (if ci field = - 1 \<or> elemAt row (ci field) = JUndef \<or> elemAt row (ci field) = JNull then ''''
        else trim (String (elemAt row (ci field))))"
    by (auto simp: transformRow_NumberOfAdults transformRow_NumberOfChildren getCellValue_plain
        trim_intToString parseInt_intToString)
  show ?thesis
    using f g parseInt_examples(1,2) by blast
qed

theorem integer_fields_parse_or_empty_witness:
  "transformRow constructor [JNum 2, JStr ''n/a''] ((onlyColumn ''NumberOfAdults'' 0)(''NumberOfChildren'' := 1))
     1 1 ''NumberOfAdults'' = JNum 2 \<and>
   transformRow constructor [JStr '' 3 adults'', JStr ''n/a''] ((onlyColumn ''NumberOfAdults'' 0)(''NumberOfChildren'' := 1))
     1 1 ''NumberOfAdults'' = JNum 3 \<and>
   transformRow constructor [JNum 2, JStr ''n/a''] ((onlyColumn ''NumberOfAdults'' 0)(''NumberOfChildren'' := 1))
     1 1 ''NumberOfChildren'' = JStr '''' \<and>
   transformRow constructor [JNum 2, JStr ''n/a''] (onlyColumn ''NumberOfAdults'' 0)
     1 1 ''NumberOfChildren'' = JStr ''''"
proof -
  let ?ci = "(onlyColumn ''NumberOfAdults'' 0)(''NumberOfChildren'' := 1)"
  let ?row = "[JNum 2, JStr ''n/a'']"
  let ?row3 = "[JStr '' 3 adults'', JStr ''n/a'']"
  have a: "parseInt (trim (String (JStr '' 3 adults''))) = Some 3" by code_simp
  have b: "parseInt (trim (String (JStr ''n/a''))) = None" by code_simp
  have fa: "''NumberOfAdults'' \<in> {''NumberOfAdults'', ''NumberOfChildren''}"
    and fc: "''NumberOfChildren'' \<in> {''NumberOfAdults'', ''NumberOfChildren''}" by simp_all
  note T = integer_fields_parse_or_empty [rule_format]
  have 1: "transformRow constructor ?row ?ci 1 1 ''NumberOfAdults'' = JNum 2"
    using T [OF fa, where ci = ?ci and this = constructor and row = ?row and i = 1 and rid = 1 and m = 2]
    by (simp add: onlyColumn_def elemAt_def maxSafeInteger_def)
  have 2: "transformRow constructor ?row3 ?ci 1 1 ''NumberOfAdults'' = JNum 3"
    using T [OF fa, where ci = ?ci and this = constructor and row = ?row3 and i = 1 and rid = 1 and n = 3] a
    by (simp add: onlyColumn_def elemAt_def maxSafeInteger_def)
  have 3: "transformRow constructor ?row ?ci 1 1 ''NumberOfChildren'' = JStr ''''"
    using T [OF fc, where ci = ?ci and this = constructor and row = ?row and i = 1 and rid = 1] b
    by (simp add: onlyColumn_def elemAt_def)
  have 4: "transformRow constructor ?row (onlyColumn ''NumberOfAdults'' 0) 1 1 ''NumberOfChildren'' = JStr ''''"
    using T [OF fc, where ci = "onlyColumn ''NumberOfAdults'' 0" and this = constructor and row = ?row
              and i = 1 and rid = 1]
    by (simp add: onlyColumn_def)
  from 1 2 3 4 show ?thesis by simp
qed

section \<open>Parsing: kept rows, their order, and the missing required column\<close>

lemma transformRow_rowId: "transformRow this row ci rid i = transformRow this row ci rid' i"
  by (simp add: transformRow_def)

lemma upto_first: "i \<le> j \<Longrightarrow> [i..j] = i # [i + 1..j]"
  by (simp add: upto_rec1)

lemma processRows_map_filter:
  "processRows this ci dataRows i n =
     List.map_filter
       (\<lambda>(j, r). case r of
                   Arr row \<Rightarrow> if keepsRow this ci row then Some (transformRow this row ci 0 j) else None
                 | NotArr \<Rightarrow> None)
       (zip [i..i + int (length dataRows) - 1] dataRows)"
proof (induction dataRows arbitrary: i n)
  case Nil
  then show ?case by (simp add: List.map_filter_simps)
next
  case (Cons r rest)
  have u: "[i..i + int (length (r # rest)) - 1] = i # [i + 1..i + 1 + int (length rest) - 1]"
    by (simp add: upto_rec1 add.commute add.left_commute)
  show ?case
  proof (cases r)
    case NotArr
    then show ?thesis
      unfolding u by (simp add: List.map_filter_simps Cons.IH)
  next
    case (Arr row)
    then show ?thesis
      unfolding u
      by (simp add: List.map_filter_simps Cons.IH transformRow_rowId [of this row ci n i 0])
  qed
qed

text \<open>
  Claim C1. For every workbook whose first sheet has a grid with a non-empty header row in
  which the required column is resolved, the output records are the transformations of
  exactly those data rows whose required cell has text that is not blank after trimming,
  in the order of the rows; a row with a blank required cell, and a row that is not an
  array, yields no record. (When no row is kept the parse is rejected, and there are no
  output records. The running number that the loop hands to \<open>transformRow\<close> is not used
  by it and is written as 0 here.)
\<close>

theorem parseFile_rows_are_kept_rows_in_order:
  assumes "SheetNames wb = sheetName # others" and "sheetName \<noteq> []"
    and "Sheets wb sheetName = Some ws"
    and "sheetRows ws = Arr headerRow # dataRows" and "headerRow \<noteq> []"
    and "findColumnIndices headerRow requiredColumn \<noteq> - 1"
  shows "fst (parseFile this \<lparr>name = fname, fileData = Workbook wb\<rparr>) =
           (let ci = findColumnIndices headerRow;
                this' = this\<lparr>this_worksheet := Some ws\<rparr>;
                records =
                  List.map_filter
                    (\<lambda>(j, r). case r of
                                Arr row \<Rightarrow>
                                  if elemAt row (ci requiredColumn) \<noteq> JUndef \<and>
                                     elemAt row (ci requiredColumn) \<noteq> JNull \<and>
                                     trim (String (elemAt row (ci requiredColumn))) \<noteq> []
                                  then Some (transformRow this' row ci 0 j) else None
                              | NotArr \<Rightarrow> None)
                    (zip [1..int (length dataRows)] dataRows)
            in if records = [] then Inl (noValidRowsError requiredNames)
               else Inr \<lparr>rows = records, fileName = fname\<rparr>)"
proof -
  let ?ci = "findColumnIndices headerRow"
  let ?this' = "this\<lparr>this_worksheet := Some ws\<rparr>"
  have k: "keepsRow ?this' ?ci row \<longleftrightarrow>
             elemAt row (?ci requiredColumn) \<noteq> JUndef \<and> elemAt row (?ci requiredColumn) \<noteq> JNull \<and>
             trim (String (elemAt row (?ci requiredColumn))) \<noteq> []" for row
    using assms(6) by (simp add: keepsRow_iff)
  have p: "processRows ?this' ?ci dataRows 1 1 =
             List.map_filter
               (\<lambda>(j, r). case r of
                           Arr row \<Rightarrow>
                             if elemAt row (?ci requiredColumn) \<noteq> JUndef \<and>
                                elemAt row (?ci requiredColumn) \<noteq> JNull \<and>
                                trim (String (elemAt row (?ci requiredColumn))) \<noteq> []
                             then Some (transformRow ?this' row ?ci 0 j) else None
                         | NotArr \<Rightarrow> None)
               (zip [1..int (length dataRows)] dataRows)"
    unfolding processRows_map_filter k by simp
  have w: "parseWorkbook this fname wb =
             (if processRows ?this' ?ci dataRows 1 1 = []
              then Inl (noValidRowsError requiredNames)
              else Inr \<lparr>rows = processRows ?this' ?ci dataRows 1 1, fileName = fname\<rparr>, ?this')"
    unfolding parseWorkbook_def parseGrid_def assms(1) list.case Let_def assms(3) option.case assms(4)
      gridRow.case
    using assms(2,5,6) by simp
  show ?thesis
    unfolding parseFile_def Let_def by (simp add: w p)
qed
theorem parseFile_rows_are_kept_rows_in_order_witness:
  "fst (parseFile constructor
          (gridFile [Arr [JStr ''Reservation Num''], Arr [JStr ''A1''], NotArr, Arr [JStr ''  ''],
                     Arr [JStr ''B2'']])) =
     Inr \<lparr>rows =
            [transformRow
               (gridParser [Arr [JStr ''Reservation Num''], Arr [JStr ''A1''], NotArr, Arr [JStr ''  ''],
                            Arr [JStr ''B2'']])
               [JStr ''A1''] (findColumnIndices [JStr ''Reservation Num'']) 0 1,
             transformRow
               (gridParser [Arr [JStr ''Reservation Num''], Arr [JStr ''A1''], NotArr, Arr [JStr ''  ''],
                            Arr [JStr ''B2'']])
               [JStr ''B2''] (findColumnIndices [JStr ''Reservation Num'']) 0 4],
          fileName = ''export.xlsx''\<rparr>"
proof -
  let ?hdr = "[JStr ''Reservation Num'']"
  let ?data = "[Arr [JStr ''A1''], NotArr, Arr [JStr ''  ''], Arr [JStr ''B2'']]"
  let ?ws = "\<lparr>cells = (\<lambda>a. None), sheetRows = Arr ?hdr # ?data\<rparr>"
  let ?wb = "\<lparr>SheetNames = [''S''], Sheets = (\<lambda>n. if n = ''S'' then Some ?ws else None)\<rparr>"
  have ci: "findColumnIndices ?hdr requiredColumn = 0" by code_simp
  have t: "trim ''A1'' \<noteq> []" "trim ''  '' = []" "trim ''B2'' \<noteq> []" by code_simp+
  have u: "[1..4::int] = [1, 2, 3, 4]" by (simp add: upto_rec1)
  have "fst (parseFile constructor \<lparr>name = ''export.xlsx'', fileData = Workbook ?wb\<rparr>) =
          Inr \<lparr>rows = [transformRow (constructor\<lparr>this_worksheet := Some ?ws\<rparr>) [JStr ''A1''] (findColumnIndices ?hdr) 0 1,
                        transformRow (constructor\<lparr>this_worksheet := Some ?ws\<rparr>) [JStr ''B2''] (findColumnIndices ?hdr) 0 4],
               fileName = ''export.xlsx''\<rparr>"
    by (subst parseFile_rows_are_kept_rows_in_order
          [where wb = ?wb and sheetName = "''S''" and others = "[]" and ws = ?ws
             and headerRow = ?hdr and dataRows = ?data])
       (simp_all add: ci u t Let_def List.map_filter_simps elemAt_def del: upto.simps)
  then show ?thesis
    by (simp add: gridFile_def gridParser_def constructor_def)
qed

text \<open>
  Claim C8. For every workbook whose first sheet has a grid with a non-empty header row in
  which neither alias of the required field (Reservation Number, Reservation Num) matches
  any header cell, parsing is rejected and gives no result; the error's message names the
  accepted aliases, joined by \<open>" oder "\<close>, and lists the header cells that are present
  (the truthy ones), joined by commas.
\<close>

theorem parseFile_missing_required_column:
  assumes "SheetNames wb = sheetName # others" and "sheetName \<noteq> []"
    and "Sheets wb sheetName = Some ws"
    and "sheetRows ws = Arr headerRow # dataRows" and "headerRow \<noteq> []"
    and "\<forall>a \<in> set [''Reservation Number'', ''Reservation Num'']. \<forall>x \<in> set headerRow. \<not> headerMatches x a"
  shows "fst (parseFile this \<lparr>name = fname, fileData = Workbook wb\<rparr>) =
           Inl (Error (''Die erforderliche Spalte '' @ [CHR 0x22] @
                       join ([CHR 0x22] @ '' oder '' @ [CHR 0x22]) [''Reservation Number'', ''Reservation Num''] @
                       [CHR 0x22] @ '' wurde nicht gefunden. '' @
                       ''Verf'' @ [CHR 0xFC] @ ''gbare Spalten: '' @
                       join '', '' (map String (filter truthy headerRow))))"
proof -
  have m: "(''BookingNumber'', \<lparr>possibleNames = [''Reservation Number'', ''Reservation Num''], ftype = TString\<rparr>)
             \<in> set columnMapping"
    by (simp add: columnMapping_def)
  have "firstFound headerRow [''Reservation Number'', ''Reservation Num''] = - 1"
    unfolding firstFound_none by (rule assms(6))
  then have "findColumnIndices headerRow ''BookingNumber'' = - 1"
    by (simp add: findColumnIndices_field [OF m])
  then have r: "findColumnIndices headerRow requiredColumn = - 1"
    by (simp add: requiredColumn_def)
  have n: "requiredNames = [''Reservation Number'', ''Reservation Num'']"
    by (simp add: requiredNames_def requiredColumn_def map_of_columnMapping)
  have "parseWorkbook this fname wb =
          (Inl (missingRequiredColumnError requiredNames headerRow), this\<lparr>this_worksheet := Some ws\<rparr>)"
    unfolding parseWorkbook_def parseGrid_def assms(1) list.case Let_def assms(3) option.case assms(4)
      gridRow.case
    using assms(2,5) r by simp
  then show ?thesis
    by (simp add: parseFile_def n missingRequiredColumnError_def joinedNames_def availableColumns_def)
qed

theorem parseFile_missing_required_column_witness:
  "fst (parseFile constructor (gridFile [Arr [JStr ''Booking'', JStr '''', JStr ''Voucher''], Arr [JStr ''A1'']])) =
     Inl (Error (''Die erforderliche Spalte '' @ [CHR 0x22] @ ''Reservation Number'' @ [CHR 0x22] @
                 '' oder '' @ [CHR 0x22] @ ''Reservation Num'' @ [CHR 0x22] @
                 '' wurde nicht gefunden. Verf'' @ [CHR 0xFC] @ ''gbare Spalten: Booking, Voucher''))"
proof -
  let ?hdr = "[JStr ''Booking'', JStr '''', JStr ''Voucher'']"
  let ?ws = "\<lparr>cells = (\<lambda>a. None), sheetRows = [Arr ?hdr, Arr [JStr ''A1'']]\<rparr>"
  let ?wb = "\<lparr>SheetNames = [''S''], Sheets = (\<lambda>n. if n = ''S'' then Some ?ws else None)\<rparr>"
  have h: "\<forall>a \<in> set [''Reservation Number'', ''Reservation Num'']. \<forall>x \<in> set ?hdr. \<not> headerMatches x a"
    by code_simp
  have "fst (parseFile constructor \<lparr>name = ''export.xlsx'', fileData = Workbook ?wb\<rparr>) =
           Inl (Error (''Die erforderliche Spalte '' @ [CHR 0x22] @
                       join ([CHR 0x22] @ '' oder '' @ [CHR 0x22]) [''Reservation Number'', ''Reservation Num''] @
                       [CHR 0x22] @ '' wurde nicht gefunden. '' @
                       ''Verf'' @ [CHR 0xFC] @ ''gbare Spalten: '' @
                       join '', '' (map String (filter truthy ?hdr))))"
    by (rule parseFile_missing_required_column
          [where sheetName = "''S''" and others = "[]" and ws = ?ws and dataRows = "[Arr [JStr ''A1'']]"])
       (simp_all add: h)
  then show ?thesis
    by (simp add: gridFile_def)
qed

section \<open>Escaping and reading back\<close>

lemma includesStr_single: "includesStr s [c] \<longleftrightarrow> c \<in> set s"
  by (induction s) (auto simp: startsWith_def)

lemma escapeCSVValue_iff:
  "escapeCSVValue value =
     (if CHR '';'' \<in> set (String value) \<or> CHR 0x22 \<in> set (String value) \<or>
         CHR 0x0A \<in> set (String value) \<or> CHR 0x0D \<in> set (String value)
      then [CHR 0x22] @ doubleQuotes (String value) @ [CHR 0x22]
      else String value)"
  by (simp add: escapeCSVValue_def Let_def delimiter_def includesStr_single)

lemma splitFields_plain_run:
  "\<forall>c \<in> set s. c \<noteq> CHR '';'' \<and> c \<noteq> CHR 0x22 \<Longrightarrow>
   splitFields False cur (s @ rest) = splitFields False (rev s @ cur) rest"
  by (induction s arbitrary: cur) simp_all

lemma splitFields_quoted_char:
  "xs \<noteq> [] \<Longrightarrow> c \<noteq> CHR 0x22 \<Longrightarrow> splitFields True cur (c # xs) = splitFields True (c # cur) xs"
  by (cases xs) simp_all

lemma splitFields_closing_quote:
  "rest = [] \<or> hd rest \<noteq> CHR 0x22 \<Longrightarrow>
   splitFields True cur (CHR 0x22 # rest) = splitFields False cur rest"
  by (cases rest) auto

lemma splitFields_quoted_run:
  "rest = [] \<or> hd rest \<noteq> CHR 0x22 \<Longrightarrow>
   splitFields True cur (doubleQuotes s @ CHR 0x22 # rest) = splitFields False (rev s @ cur) rest"
proof (induction s arbitrary: cur)
  case Nil
  then show ?case
    using splitFields_closing_quote [of rest cur] by (simp add: doubleQuotes_def)
next
  case (Cons c s)
  have d: "doubleQuotes (c # s) = (if c = CHR 0x22 then [CHR 0x22, CHR 0x22] else [c]) @ doubleQuotes s"
    by (simp add: doubleQuotes_def)
  show ?case
  proof (cases "c = CHR 0x22")
    case True
    show ?thesis
      unfolding d using True Cons.IH [OF Cons.prems, of "CHR 0x22 # cur"] by simp
  next
    case False
    have "splitFields True cur (c # (doubleQuotes s @ CHR 0x22 # rest)) =
            splitFields True (c # cur) (doubleQuotes s @ CHR 0x22 # rest)"
      by (rule splitFields_quoted_char) (simp_all add: False)
    then show ?thesis
      unfolding d using False Cons.IH [OF Cons.prems, of "c # cur"] by simp
  qed
qed

lemma splitFields_escaped_field:
  assumes "rest = [] \<or> hd rest = CHR '';''"
  shows "splitFields False [] (escapeCSVValue value @ rest) = splitFields False (rev (String value)) rest"
proof (cases "CHR '';'' \<in> set (String value) \<or> CHR 0x22 \<in> set (String value) \<or>
              CHR 0x0A \<in> set (String value) \<or> CHR 0x0D \<in> set (String value)")
  case True
  have r: "rest = [] \<or> hd rest \<noteq> CHR 0x22" using assms by auto
  have "splitFields False [] (escapeCSVValue value @ rest) =
          splitFields True [] (doubleQuotes (String value) @ CHR 0x22 # rest)"
    using True by (simp add: escapeCSVValue_iff)
  also have "\<dots> = splitFields False (rev (String value) @ []) rest"
    by (rule splitFields_quoted_run [OF r])
  finally show ?thesis by simp
next
  case False
  then have "\<forall>c \<in> set (String value). c \<noteq> CHR '';'' \<and> c \<noteq> CHR 0x22" by auto
  then have "splitFields False [] (String value @ rest) = splitFields False (rev (String value) @ []) rest"
    by (rule splitFields_plain_run)
  then show ?thesis using False by (simp add: escapeCSVValue_iff)
qed

lemma splitLine_join_escaped:
  "vals \<noteq> [] \<Longrightarrow> splitLine (join delimiter (map escapeCSVValue vals)) = map String vals"
proof (induction vals rule: induct_list012)
  case 1
  then show ?case by simp
next
  case (2 x)
  show ?case
    using splitFields_escaped_field [of "[]" x] by (simp add: splitLine_def)
next
  case (3 x y zs)
  let ?R = "join delimiter (map escapeCSVValue (y # zs))"
  have "splitFields False [] (escapeCSVValue x @ CHR '';'' # ?R) =
          splitFields False (rev (String x)) (CHR '';'' # ?R)"
    by (rule splitFields_escaped_field) simp
  also have "\<dots> = String x # splitFields False [] ?R" by simp
  also have "splitFields False [] ?R = map String (y # zs)"
    using "3.IH"(2) by (simp add: splitLine_def)
  finally show ?case by (simp add: splitLine_def delimiter_def)
qed

lemma readRecords_semicolon:
  "readRecords False cur fs (CHR '';'' # xs) = readRecords False [] (rev cur # fs) xs"
  by (cases xs) simp_all

lemma readRecords_plain_char:
  "c \<noteq> CHR '';'' \<Longrightarrow> c \<noteq> CHR 0x22 \<Longrightarrow> c \<noteq> CHR 0x0D \<Longrightarrow>
   readRecords False cur fs (c # xs) = readRecords False (c # cur) fs xs"
  by (cases xs) simp_all

lemma readRecords_opening_quote:
  "readRecords False [] fs (CHR 0x22 # xs) = readRecords True [] fs xs"
  by (cases xs) simp_all

lemma readRecords_quoted_char:
  "xs \<noteq> [] \<Longrightarrow> c \<noteq> CHR 0x22 \<Longrightarrow> readRecords True cur fs (c # xs) = readRecords True (c # cur) fs xs"
  by (cases xs) simp_all

lemma readRecords_closing_quote:
  "rest = [] \<or> hd rest \<noteq> CHR 0x22 \<Longrightarrow>
   readRecords True cur fs (CHR 0x22 # rest) = readRecords False cur fs rest"
  by (cases rest) auto

lemma readRecords_plain_run:
  "\<forall>c \<in> set s. c \<noteq> CHR '';'' \<and> c \<noteq> CHR 0x22 \<and> c \<noteq> CHR 0x0D \<Longrightarrow>
   readRecords False cur fs (s @ rest) = readRecords False (rev s @ cur) fs rest"
  by (induction s arbitrary: cur) (simp_all add: readRecords_plain_char)

lemma readRecords_quoted_run:
  "rest = [] \<or> hd rest \<noteq> CHR 0x22 \<Longrightarrow>
   readRecords True cur fs (doubleQuotes s @ CHR 0x22 # rest) = readRecords False (rev s @ cur) fs rest"
proof (induction s arbitrary: cur)
  case Nil
  then show ?case
    using readRecords_closing_quote [of rest cur fs] by (simp add: doubleQuotes_def)
next
  case (Cons c s)
  have d: "doubleQuotes (c # s) = (if c = CHR 0x22 then [CHR 0x22, CHR 0x22] else [c]) @ doubleQuotes s"
    by (simp add: doubleQuotes_def)
  show ?case
  proof (cases "c = CHR 0x22")
    case True
    show ?thesis
      unfolding d using True Cons.IH [OF Cons.prems, of "CHR 0x22 # cur"] by simp
  next
    case False
    have "readRecords True cur fs (c # (doubleQuotes s @ CHR 0x22 # rest)) =
            readRecords True (c # cur) fs (doubleQuotes s @ CHR 0x22 # rest)"
      by (rule readRecords_quoted_char) (simp_all add: False)
    then show ?thesis
      unfolding d using False Cons.IH [OF Cons.prems, of "c # cur"] by simp
  qed
qed

lemma readRecords_escaped_field:
  assumes "rest = [] \<or> hd rest = CHR '';'' \<or> hd rest = CHR 0x0D"
  shows "readRecords False [] fs (escapeCSVValue value @ rest) =
           readRecords False (rev (String value)) fs rest"
proof (cases "CHR '';'' \<in> set (String value) \<or> CHR 0x22 \<in> set (String value) \<or>
              CHR 0x0A \<in> set (String value) \<or> CHR 0x0D \<in> set (String value)")
  case True
  have r: "rest = [] \<or> hd rest \<noteq> CHR 0x22" using assms by auto
  have "readRecords False [] fs (escapeCSVValue value @ rest) =
          readRecords True [] fs (doubleQuotes (String value) @ CHR 0x22 # rest)"
    using True by (simp add: escapeCSVValue_iff readRecords_opening_quote)
  also have "\<dots> = readRecords False (rev (String value) @ []) fs rest"
    by (rule readRecords_quoted_run [OF r])
  finally show ?thesis by simp
next
  case False
  then have "\<forall>c \<in> set (String value). c \<noteq> CHR '';'' \<and> c \<noteq> CHR 0x22 \<and> c \<noteq> CHR 0x0D" by auto
  then have "readRecords False [] fs (String value @ rest) =
               readRecords False (rev (String value) @ []) fs rest"
    by (rule readRecords_plain_run)
  then show ?thesis using False by (simp add: escapeCSVValue_iff)
qed

lemma readRecords_escaped_line:
  "vals \<noteq> [] \<Longrightarrow> rest = [] \<or> hd rest = CHR 0x0D \<Longrightarrow>
   readRecords False [] fs (join delimiter (map escapeCSVValue vals) @ rest) =
     readRecords False (rev (String (last vals))) (rev (map String (butlast vals)) @ fs) rest"
proof (induction vals arbitrary: fs rule: induct_list012)
  case 1
  then show ?case by simp
next
  case (2 x)
  then show ?case
    using readRecords_escaped_field [of rest fs x] by auto
next
  case (3 x y zs)
  let ?R = "join delimiter (map escapeCSVValue (y # zs)) @ rest"
  have "readRecords False [] fs (escapeCSVValue x @ CHR '';'' # ?R) =
          readRecords False (rev (String x)) fs (CHR '';'' # ?R)"
    by (rule readRecords_escaped_field) simp
  also have "\<dots> = readRecords False [] (String x # fs) ?R"
    by (simp add: readRecords_semicolon)
  also have "\<dots> = readRecords False (rev (String (last (y # zs))))
                      (rev (map String (butlast (y # zs))) @ String x # fs) rest"
    using "3.IH"(2) [of "String x # fs"] "3.prems" by simp
  finally show ?case by (simp add: delimiter_def)
qed

lemma readRecords_end_of_line:
  "readRecords False cur fs (CHR 0x0D # CHR 0x0A # rest) = rev (rev cur # fs) # readRecords False [] [] rest"
  by simp

lemma rev_fields: "vals \<noteq> [] \<Longrightarrow>
   rev (rev (rev (String (last vals))) # rev (map String (butlast vals))) = map String vals"
proof -
  assume "vals \<noteq> []"
  then have "map String vals = map String (butlast vals) @ [String (last vals)]"
    by (metis append_butlast_last_id list.simps(8) list.simps(9) map_append)
  then show ?thesis by simp
qed

lemma readCSV_lines:
  "ls \<noteq> [] \<Longrightarrow> \<forall>vals \<in> set ls. vals \<noteq> [] \<Longrightarrow>
   readCSV (join [CHR 0x0D, CHR 0x0A] (map (\<lambda>vals. join delimiter (map escapeCSVValue vals)) ls)) =
     map (map String) ls"
proof (induction ls rule: induct_list012)
  case 1
  then show ?case by simp
next
  case (2 vals)
  then have v: "vals \<noteq> []" by simp
  show ?case
    using readRecords_escaped_line [of vals "[]" "[]"] v rev_fields [OF v]
    by (simp add: readCSV_def)
next
  case (3 vals ws ls)
  then have v: "vals \<noteq> []" by simp
  let ?L = "\<lambda>vals. join delimiter (map escapeCSVValue vals)"
  let ?R = "join [CHR 0x0D, CHR 0x0A] (map ?L (ws # ls))"
  have "readRecords False [] [] (?L vals @ CHR 0x0D # CHR 0x0A # ?R) =
          readRecords False (rev (String (last vals))) (rev (map String (butlast vals)) @ [])
            (CHR 0x0D # CHR 0x0A # ?R)"
    by (rule readRecords_escaped_line) (simp_all add: v)
  also have "\<dots> = map String vals # readRecords False [] [] ?R"
    using rev_fields [OF v] by (simp del: readRecords.simps add: readRecords_end_of_line)
  also have "readRecords False [] [] ?R = map (map String) (ws # ls)"
    using "3.IH"(2) "3.prems" by (simp add: readCSV_def)
  finally show ?case by (simp add: readCSV_def)
qed

lemma dataRow_fields:
  "dataRow row =
     join delimiter (map escapeCSVValue
       (map (\<lambda>column. if row column \<noteq> JUndef \<and> row column \<noteq> JNull then row column else JStr '''')
          csvColumns))"
  by (simp add: dataRow_def fieldValue_def comp_def)

lemma createCSV_lines:
  "rs \<noteq> [] \<Longrightarrow>
   createCSV rs =
     Inr (join [CHR 0x0D, CHR 0x0A]
           (map (\<lambda>vals. join delimiter (map escapeCSVValue vals))
              (map JStr csvColumns #
               map (\<lambda>row. map (\<lambda>column. if row column \<noteq> JUndef \<and> row column \<noteq> JNull
                                          then row column else JStr '''') csvColumns) rs)))"
  by (simp add: createCSV_def header_def dataRow_def [abs_def] fieldValue_def comp_def)

lemma readCSV_createCSV:
  assumes "rs \<noteq> []"
  shows "\<exists>csv. createCSV rs = Inr csv \<and>
           readCSV csv =
             csvColumns #
             map (\<lambda>row. map (\<lambda>column. if row column \<noteq> JUndef \<and> row column \<noteq> JNull
                                        then String (row column) else '''') csvColumns) rs"
proof -
  let ?F = "\<lambda>row. map (\<lambda>column. if row column \<noteq> JUndef \<and> row column \<noteq> JNull
                                then row column else JStr '''') csvColumns"
  let ?ls = "map JStr csvColumns # map ?F rs"
  have c: "csvColumns \<noteq> []" by (simp add: csvColumns_def)
  have ne: "\<forall>vals \<in> set ?ls. vals \<noteq> []" using c by auto
  have "readCSV (join [CHR 0x0D, CHR 0x0A] (map (\<lambda>vals. join delimiter (map escapeCSVValue vals)) ?ls)) =
          map (map String) ?ls"
    by (rule readCSV_lines [OF _ ne]) simp
  moreover have "map (map String) ?ls =
             csvColumns #
             map (\<lambda>row. map (\<lambda>column. if row column \<noteq> JUndef \<and> row column \<noteq> JNull
                                        then String (row column) else '''') csvColumns) rs"
    by (simp add: comp_def if_distrib [of String] cong: if_cong)
  ultimately show ?thesis
    using createCSV_lines [OF assms] by simp
qed

text \<open>
  Claim C7. For every field value, the serializer wraps the value's text in double quotes,
  with every embedded double quote doubled, if and only if the text contains a semicolon,
  a double quote, a carriage return or a line feed, and otherwise emits the text as it is.
  For every non-empty sequence of records, \<open>createCSV\<close> gives the header line and one line
  per record, in order, joined by carriage return and line feed; a line is the escaped
  values of the record's ten fields (the empty text for a field that is null or
  undefined), joined by semicolons. Consequently, reading the produced text back while
  respecting quoting recovers the ten column names and, for every record, the text of
  every one of its fields exactly; so does splitting a single produced line.
\<close>

theorem escape_iff_and_round_trip:
  "(\<forall>value. escapeCSVValue value =
      (if CHR '';'' \<in> set (String value) \<or> CHR 0x22 \<in> set (String value) \<or>
          CHR 0x0A \<in> set (String value) \<or> CHR 0x0D \<in> set (String value)
       then [CHR 0x22] @ doubleQuotes (String value) @ [CHR 0x22]
       else String value)) \<and>
   (\<forall>rs. rs \<noteq> [] \<longrightarrow>
      createCSV rs =
        Inr (join [CHR 0x0D, CHR 0x0A]
              (map (\<lambda>vals. join '';'' (map escapeCSVValue vals))
                 (map JStr [''Id'', ''BookingNumber'', ''OTANumber'', ''Name'', ''NumberOfAdults'',
                            ''NumberOfTeens'', ''NumberOfChildren'', ''NumberOfBabys'', ''DateFrom'',
                            ''DateTo''] #
                  map (\<lambda>row. map (\<lambda>column. if row column \<noteq> JUndef \<and> row column \<noteq> JNull
                                             then row column else JStr '''')
                               [''Id'', ''BookingNumber'', ''OTANumber'', ''Name'', ''NumberOfAdults'',
                                ''NumberOfTeens'', ''NumberOfChildren'', ''NumberOfBabys'', ''DateFrom'',
                                ''DateTo'']) rs)))) \<and>
   (\<forall>rs. rs \<noteq> [] \<longrightarrow>
      (\<exists>csv. createCSV rs = Inr csv \<and>
         readCSV csv =
           [''Id'', ''BookingNumber'', ''OTANumber'', ''Name'', ''NumberOfAdults'',
            ''NumberOfTeens'', ''NumberOfChildren'', ''NumberOfBabys'', ''DateFrom'', ''DateTo''] #
           map (\<lambda>row. map (\<lambda>column. if row column \<noteq> JUndef \<and> row column \<noteq> JNull
                                      then String (row column) else '''')
                        [''Id'', ''BookingNumber'', ''OTANumber'', ''Name'', ''NumberOfAdults'',
                         ''NumberOfTeens'', ''NumberOfChildren'', ''NumberOfBabys'', ''DateFrom'',
                         ''DateTo'']) rs)) \<and>
   (\<forall>row. splitLine (dataRow row) =
      map (\<lambda>column. if row column \<noteq> JUndef \<and> row column \<noteq> JNull then String (row column) else '''')
          [''Id'', ''BookingNumber'', ''OTANumber'', ''Name'', ''NumberOfAdults'',
           ''NumberOfTeens'', ''NumberOfChildren'', ''NumberOfBabys'', ''DateFrom'', ''DateTo'']) \<and>
   (\<forall>vals. vals \<noteq> [] \<longrightarrow> splitLine (join '';'' (map escapeCSVValue vals)) = map String vals)"
proof -
  have c: "csvColumns \<noteq> []" by (simp add: csvColumns_def)
  have 1: "splitLine (dataRow row) =
      map (\<lambda>column. if row column \<noteq> JUndef \<and> row column \<noteq> JNull then String (row column) else '''')
          csvColumns" for row
    using splitLine_join_escaped
            [of "map (\<lambda>column. if row column \<noteq> JUndef \<and> row column \<noteq> JNull then row column else JStr '''')
                   csvColumns"] c
    by (simp add: dataRow_fields comp_def if_distrib [of String] cong: if_cong)
  have 2: "vals \<noteq> [] \<longrightarrow> splitLine (join '';'' (map escapeCSVValue vals)) = map String vals" for vals
    using splitLine_join_escaped [of vals] by (simp add: delimiter_def)
  have 3: "rs \<noteq> [] \<longrightarrow>
      (\<exists>csv. createCSV rs = Inr csv \<and>
         readCSV csv =
           csvColumns #
           map (\<lambda>row. map (\<lambda>column. if row column \<noteq> JUndef \<and> row column \<noteq> JNull
                                      then String (row column) else '''') csvColumns) rs)" for rs
    using readCSV_createCSV [of rs] by blast
  have 4: "rs \<noteq> [] \<longrightarrow>
      createCSV rs =
        Inr (join [CHR 0x0D, CHR 0x0A]
              (map (\<lambda>vals. join '';'' (map escapeCSVValue vals))
                 (map JStr csvColumns #
                  map (\<lambda>row. map (\<lambda>column. if row column \<noteq> JUndef \<and> row column \<noteq> JNull
                                             then row column else JStr '''') csvColumns) rs)))" for rs
    using createCSV_lines [of rs] by (simp add: delimiter_def)
  show ?thesis
    using escapeCSVValue_iff 1 2 3 4 unfolding csvColumns_def by blast
qed

lemma sampleRecord_fields:
  "sampleRecord ''Id'' = JStr ''12345''" "sampleRecord ''BookingNumber'' = JStr ''12345''"
  "sampleRecord ''OTANumber'' = JStr (''say '' @ [CHR 0x22] @ ''hi'' @ [CHR 0x22])"
  "sampleRecord ''Name'' = JStr ''Doe; J''" "sampleRecord ''NumberOfAdults'' = JNum 2"
  "sampleRecord ''NumberOfTeens'' = JNum 0" "sampleRecord ''NumberOfChildren'' = JNull"
  "sampleRecord ''NumberOfBabys'' = JNum 0" "sampleRecord ''DateFrom'' = JStr ''15.03.2023''"
  "sampleRecord ''DateTo'' = JStr ''20.03.2023''"
  by (simp_all add: sampleRecord_def emptyRecord_def)

lemma intToString_small: "intToString 0 = ''0''" "intToString 2 = ''2''"
  by code_simp+

theorem escape_iff_and_round_trip_witness:
  "createCSV [sampleRecord] =
     Inr (''Id;BookingNumber;OTANumber;Name;NumberOfAdults;NumberOfTeens;NumberOfChildren;'' @
          ''NumberOfBabys;DateFrom;DateTo'' @ [CHR 0x0D, CHR 0x0A] @
          ''12345;12345;'' @ [CHR 0x22] @ ''say '' @ [CHR 0x22, CHR 0x22] @ ''hi'' @
          [CHR 0x22, CHR 0x22, CHR 0x22] @ '';'' @ [CHR 0x22] @ ''Doe; J'' @ [CHR 0x22] @
          '';2;0;;0;15.03.2023;20.03.2023'') \<and>
   readCSV (''Id;BookingNumber;OTANumber;Name;NumberOfAdults;NumberOfTeens;NumberOfChildren;'' @
          ''NumberOfBabys;DateFrom;DateTo'' @ [CHR 0x0D, CHR 0x0A] @
          ''12345;12345;'' @ [CHR 0x22] @ ''say '' @ [CHR 0x22, CHR 0x22] @ ''hi'' @
          [CHR 0x22, CHR 0x22, CHR 0x22] @ '';'' @ [CHR 0x22] @ ''Doe; J'' @ [CHR 0x22] @
          '';2;0;;0;15.03.2023;20.03.2023'') =
     [[''Id'', ''BookingNumber'', ''OTANumber'', ''Name'', ''NumberOfAdults'',
       ''NumberOfTeens'', ''NumberOfChildren'', ''NumberOfBabys'', ''DateFrom'', ''DateTo''],
      [''12345'', ''12345'', ''say '' @ [CHR 0x22] @ ''hi'' @ [CHR 0x22], ''Doe; J'',
       ''2'', ''0'', '''', ''0'', ''15.03.2023'', ''20.03.2023'']]"
proof -
  note T = escape_iff_and_round_trip
  let ?csv = "''Id;BookingNumber;OTANumber;Name;NumberOfAdults;NumberOfTeens;NumberOfChildren;'' @
          ''NumberOfBabys;DateFrom;DateTo'' @ [CHR 0x0D, CHR 0x0A] @
          ''12345;12345;'' @ [CHR 0x22] @ ''say '' @ [CHR 0x22, CHR 0x22] @ ''hi'' @
          [CHR 0x22, CHR 0x22, CHR 0x22] @ '';'' @ [CHR 0x22] @ ''Doe; J'' @ [CHR 0x22] @
          '';2;0;;0;15.03.2023;20.03.2023''"
  have ne: "[sampleRecord] \<noteq> []" by simp
  have out: "createCSV [sampleRecord] = Inr ?csv"
    by (subst T [THEN conjunct2, THEN conjunct1, rule_format, OF ne])
       (simp add: sampleRecord_fields T [THEN conjunct1, rule_format] doubleQuotes_def
          intToString_small)
  from T [THEN conjunct2, THEN conjunct2, THEN conjunct1, rule_format, OF ne]
  obtain csv where csv: "createCSV [sampleRecord] = Inr csv"
    and rd: "readCSV csv =
           [''Id'', ''BookingNumber'', ''OTANumber'', ''Name'', ''NumberOfAdults'',
            ''NumberOfTeens'', ''NumberOfChildren'', ''NumberOfBabys'', ''DateFrom'', ''DateTo''] #
           map (\<lambda>row. map (\<lambda>column. if row column \<noteq> JUndef \<and> row column \<noteq> JNull
                                      then String (row column) else '''')
                        [''Id'', ''BookingNumber'', ''OTANumber'', ''Name'', ''NumberOfAdults'',
                         ''NumberOfTeens'', ''NumberOfChildren'', ''NumberOfBabys'', ''DateFrom'',
                         ''DateTo'']) [sampleRecord]"
    by blast
  from csv out have e: "csv = ?csv" by simp
  have "readCSV ?csv =
     [[''Id'', ''BookingNumber'', ''OTANumber'', ''Name'', ''NumberOfAdults'',
       ''NumberOfTeens'', ''NumberOfChildren'', ''NumberOfBabys'', ''DateFrom'', ''DateTo''],
      [''12345'', ''12345'', ''say '' @ [CHR 0x22] @ ''hi'' @ [CHR 0x22], ''Doe; J'',
       ''2'', ''0'', '''', ''0'', ''15.03.2023'', ''20.03.2023'']]"
    using rd unfolding e by (simp add: sampleRecord_fields intToString_small)
  with out show ?thesis by blast
qed

section \<open>Missing cells and complete records\<close>

lemma elemAt_outside: "index < 0 \<or> int (length row) \<le> index \<Longrightarrow> elemAt row index = JUndef"
  by (auto simp: elemAt_def)

lemma getCellValue_missing:
  "index = - 1 \<or> elemAt row index = JUndef \<or> elemAt row index = JNull \<Longrightarrow>
   getCellValue this row index rowIndex columnName = ''''"
  by (auto simp: getCellValue_def)

lemma completeRecord_transformRow: "completeRecord (transformRow this row ci rid rowIndex)"
  unfolding completeRecord_def
  by (simp add: transformRow_Id transformRow_BookingNumber transformRow_OTANumber transformRow_Name
      transformRow_NumberOfAdults transformRow_NumberOfChildren transformRow_NumberOfTeens
      transformRow_NumberOfBabys transformRow_DateFrom transformRow_DateTo isText_def isNumber_def
      split: option.splits)

text \<open>
  Claim C10. Cell extraction gives a text for every row that is an array and every column
  index: the empty text when the index is the sentinel -1, when it lies outside the row (a
  row shorter than the header row), or when the cell is null or undefined. So every row,
  whatever its length, is transformed into a complete record. (In this model every
  operation that \<open>getCellValue\<close> and \<open>transformRow\<close> perform has a result, and the loop
  that computes the column letters terminates for every index.)
\<close>

theorem getCellValue_total_record_complete:
  "(index = - 1 \<or> index < 0 \<or> int (length row) \<le> index \<or>
    elemAt row index = JUndef \<or> elemAt row index = JNull
      \<longrightarrow> getCellValue this row index rowIndex columnName = '''') \<and>
   (\<not> isDateField columnName \<and> index \<noteq> - 1 \<and> elemAt row index \<noteq> JUndef \<and> elemAt row index \<noteq> JNull
      \<longrightarrow> getCellValue this row index rowIndex columnName = trim (String (elemAt row index))) \<and>
   completeRecord (transformRow this row ci rid rowIndex)"
  using elemAt_outside [of index row] getCellValue_missing [of index row this rowIndex columnName]
  by (auto simp: completeRecord_transformRow getCellValue_plain)

theorem getCellValue_total_record_complete_witness:
  "getCellValue constructor [JStr ''A1'', JNull] (- 1) 1 ''Name'' = '''' \<and>
   getCellValue constructor [JStr ''A1'', JNull] 1 1 ''Name'' = '''' \<and>
   getCellValue constructor [JStr ''A1'', JNull] 6 1 ''DateTo'' = '''' \<and>
   getCellValue constructor [JStr ''A1'', JNull] 0 1 ''Name'' = ''A1'' \<and>
   completeRecord (transformRow constructor [JStr ''A1'', JNull]
     (findColumnIndices [JStr ''Reservation Num'', JStr ''Voucher'', JStr ''Main Guest'', JStr ''AD'',
                         JStr ''CH'', JStr ''Arrival'', JStr ''Departure'']) 1 1)"
proof -
  let ?row = "[JStr ''A1'', JNull]"
  note T = getCellValue_total_record_complete
  have t: "trim ''A1'' = ''A1''" by code_simp
  have a: "getCellValue constructor ?row (- 1) 1 ''Name'' = ''''"
    using T [of "- 1" ?row constructor 1 "''Name''"] by simp
  have b: "getCellValue constructor ?row 1 1 ''Name'' = ''''"
    using T [of 1 ?row constructor 1 "''Name''"] by (simp add: elemAt_def)
  have c: "getCellValue constructor ?row 6 1 ''DateTo'' = ''''"
    using T [of 6 ?row constructor 1 "''DateTo''"] by simp
  have d: "getCellValue constructor ?row 0 1 ''Name'' = ''A1''"
    using T [of 0 ?row constructor 1 "''Name''"] by (simp add: elemAt_def t)
  have e: "completeRecord (transformRow constructor ?row
     (findColumnIndices [JStr ''Reservation Num'', JStr ''Voucher'', JStr ''Main Guest'', JStr ''AD'',
                         JStr ''CH'', JStr ''Arrival'', JStr ''Departure'']) 1 1)"
    using T [of 0 ?row constructor 1 "''Name''"] by blast
  from a b c d e show ?thesis by simp
qed

section \<open>The worksheet handle on the parser object\<close>

lemma parser_update_eq:
  "(this :: parser)\<lparr>this_worksheet := x\<rparr> = \<lparr>this_worksheet = x\<rparr>"
  by (cases this) simp

lemma parseWorkbook_result_independent:
  "fst (parseWorkbook this fname wb) = fst (parseWorkbook this' fname wb)"
  unfolding parseWorkbook_def Let_def parser_update_eq
  by (simp split: list.splits)

lemma parseWorkbook_state:
  "snd (parseWorkbook this fname wb) =
     (case SheetNames wb of
        [] \<Rightarrow> this
      | sheetName # others \<Rightarrow>
          if sheetName = [] then this else \<lparr>this_worksheet = Sheets wb sheetName\<rparr>)"
  unfolding parseWorkbook_def Let_def parser_update_eq
  by (simp split: list.splits)

text \<open>
  Claim C9, as amended. The table of column indices is a local value of one parse. The
  worksheet handle is a field of the parser object: a parse that finds a first sheet
  stores that sheet's worksheet in the field, and the field keeps it after the parse has
  settled, with a result or with an error, until a later parse overwrites it. Every
  parse stores the handle before it reads it, so the result of a parse depends only on
  its own file and not on the state that earlier parses left behind.
\<close>

theorem parse_result_independent_of_prior_state:
  "fst (parseFile this f) = fst (parseFile this' f) \<and>
   fst (parseFile (snd (parseFile this g)) f) = fst (parseFile constructor f) \<and>
   snd (parseFile this f) =
     (case fileData f of
        ReaderError \<Rightarrow> this
      | ReadThrows msg \<Rightarrow> this
      | Workbook wb \<Rightarrow>
          (case SheetNames wb of
             [] \<Rightarrow> this
           | sheetName # others \<Rightarrow>
               if sheetName = [] then this else \<lparr>this_worksheet = Sheets wb sheetName\<rparr>))"
proof -
  have i: "fst (parseFile a f) = fst (parseFile b f)" for a b
    by (simp add: parseFile_def parseWorkbook_result_independent [of a _ _ b] split: fileData.splits)
  have s: "snd (parseFile this f) =
     (case fileData f of
        ReaderError \<Rightarrow> this
      | ReadThrows msg \<Rightarrow> this
      | Workbook wb \<Rightarrow>
          (case SheetNames wb of
             [] \<Rightarrow> this
           | sheetName # others \<Rightarrow>
               if sheetName = [] then this else \<lparr>this_worksheet = Sheets wb sheetName\<rparr>))"
    by (simp add: parseFile_def parseWorkbook_state split: fileData.splits)
  from i [of this this'] i [of "snd (parseFile this g)" constructor] s show ?thesis by simp
qed

lemma serial_45000_text: "formatDate (excelDateToJSDate (FNum 45000)) = ''15.03.2023''"
  using serial_45000 by (simp add: serialText_def)

lemma cellAddress_A3: "cellAddress 0 2 = ''A3''"
  by code_simp

lemma digitChar_simps:
  "digitChar 0 = CHR ''0''" "digitChar 1 = CHR ''1''" "digitChar 2 = CHR ''2''"
  "digitChar 3 = CHR ''3''" "digitChar 4 = CHR ''4''" "digitChar 5 = CHR ''5''"
  "digitChar 6 = CHR ''6''" "digitChar 7 = CHR ''7''" "digitChar 8 = CHR ''8''"
  "digitChar 9 = CHR ''9''"
  by code_simp+

lemma intToString_45000: "intToString 45000 = ''45000''"
  by (simp add: intToString_def natToString.simps digitChar_simps)

text \<open>
  Claim C9 as stated fails: the worksheet of a parsed file stays on the parser object
  after the parse, whether the parse gave a result or was rejected, and a later call of
  \<open>getCellValue\<close> on that object reads it: for a date column it then converts a serial
  that a fresh parser returns as plain text.
\<close>

theorem worksheet_persists_after_parse:
  "snd (parseFile constructor (gridFile [Arr [JStr ''Reservation Num''], Arr [JStr ''A1'']])) =
     gridParser [Arr [JStr ''Reservation Num''], Arr [JStr ''A1'']] \<and>
   this_worksheet (snd (parseFile constructor (gridFile [Arr [JStr ''Reservation Num''], Arr [JStr ''A1'']])))
     \<noteq> this_worksheet constructor \<and>
   this_worksheet (snd (parseFile constructor (gridFile [Arr [JStr ''Booking'']]))) \<noteq> None \<and>
   getCellValue (snd (parseFile constructor (gridFile [Arr [JStr ''Reservation Num''], Arr [JStr ''A1'']])))
     [JNum 45000] 0 2 ''DateFrom'' = ''15.03.2023'' \<and>
   getCellValue constructor [JNum 45000] 0 2 ''DateFrom'' = ''45000''"
proof -
  let ?g = "[Arr [JStr ''Reservation Num''], Arr [JStr ''A1'']]"
  have s: "snd (parseFile constructor (gridFile grid)) = gridParser grid" for grid
    by (simp add: parseFile_def gridFile_def parseWorkbook_state gridParser_def)
  have t: "trim (String (JNum 45000)) = ''45000''"
    by (simp add: intToString_45000 trim_def isWhiteSpace_def)
  have a: "getCellValue (gridParser ?g) [JNum 45000] 0 2 ''DateFrom'' = ''15.03.2023''"
    by (simp add: getCellValue_def elemAt_def isDateField_def gridParser_def cellAddress_A3 Let_def
        t parseFloat_45000 serial_45000_text del: String.simps)
  have b: "getCellValue constructor [JNum 45000] 0 2 ''DateFrom'' = ''45000''"
    by (simp add: getCellValue_def elemAt_def isDateField_def constructor_def Let_def t del: String.simps)
  show ?thesis
    using a b by (simp add: s) (simp add: gridParser_def constructor_def)
qed

end
